theory Spec2Isabelle
  imports Main "HOL-Library.Char_ord" "HOL-Library.List_Lexorder"
    "HOL-Library.Product_Lexorder" "HOL-Library.Option_ord"
begin

section \<open>The client-side storage engine (class ClientStorage)\<close>

text \<open>
  The class keeps conversations and messages in three IndexedDB object stores and
  encrypts the sensitive fields of a record with CryptoJS. The model below follows
  \<^verbatim>\<open>ClientStorage\<close> method by method. What the class takes from outside the
  repository (CryptoJS, JSON, Date, the random generator, the outcome of \<^verbatim>\<open>openDB\<close>)
  is collected in the record \<open>env\<close> and passed to every method.
\<close>

subsection \<open>Data model\<close>

datatype sync_status = Local | Synced | Conflict

text \<open>\<^verbatim>\<open>interface EncryptedData { data; iv; timestamp }\<close>\<close>

record encrypted_data =
  data :: string
  iv :: string
  timestamp :: int

text \<open>
  \<^verbatim>\<open>StoredConversation extends TConversation\<close>: one JavaScript object type, so one record.
  A field that is \<^verbatim>\<open>undefined\<close>, \<^verbatim>\<open>null\<close> or deleted is \<open>None\<close>.
\<close>

record conversation =
  conversationId :: "string option"
  title :: "string option"
  endpoint :: "string option"
  model :: "string option"
  promptPrefix :: "string option"
  createdAt :: "string option"
  updatedAt :: "string option"
  encryptedData :: "encrypted_data option"
  encryptedAt :: "int option"
  lastAccessed :: "int option"
  syncStatus :: "sync_status option"

text \<open>\<^verbatim>\<open>StoredMessage extends TMessage\<close>; \<^verbatim>\<open>messageId\<close> is the in-line primary key.\<close>

record message =
  messageId :: string
  msg_conversationId :: "string option"
  parentMessageId :: "string option"
  isCreatedByUser :: bool
  msg_text :: "string option"
  content :: "string list option"
  msg_createdAt :: "string option"
  msg_encryptedData :: "encrypted_data option"
  msg_encryptedAt :: "int option"
  msg_syncStatus :: "sync_status option"

record storage_settings =
  encryptionEnabled :: bool
  backupEnabled :: bool
  masterKeyHash :: "string option"
  lastBackup :: "int option"
  maxStorageSize :: "int option"

text \<open>
  The object handed to \<^verbatim>\<open>encrypt\<close> and read back from \<^verbatim>\<open>decrypt\<close>:
  \<^verbatim>\<open>{promptPrefix, title}\<close> for a conversation, \<^verbatim>\<open>{text, content}\<close> for a message.
  A key whose value is \<^verbatim>\<open>undefined\<close> is absent from the JSON text, hence \<open>None\<close>.
\<close>

record sensitive =
  s_promptPrefix :: "string option"
  s_title :: "string option"
  s_text :: "string option"
  s_content :: "string list option"

datatype error =
    EncryptionNotAvailable
  | EncryptionKeyNotAvailable
  | MalformedUtf8
  | JsonSyntaxError
  | DataError
  | OpenDBFailed

text \<open>
  The libraries and the environment. \<open>random_hex\<close>, \<open>date_now\<close> and \<open>openDB_ok\<close> are
  read at the store's \<open>tick\<close>, which every read advances, so two reads may differ.
  \<open>aes_decrypt\<close> is \<^verbatim>\<open>CryptoJS.AES.decrypt(..).toString(CryptoJS.enc.Utf8)\<close>, which
  throws on malformed UTF-8 (\<open>None\<close>); \<open>json_parse\<close> throws a SyntaxError (\<open>None\<close>);
  \<open>date_getTime\<close> is \<^verbatim>\<open>new Date(s).getTime()\<close>, \<open>None\<close> for NaN.
  \<open>array_sort\<close> is \<^verbatim>\<open>Array.prototype.sort\<close> of the engine, given the comparator
  (\<open>None\<close> for a NaN result): ECMAScript fixes its result only for a consistent
  comparator and leaves the order to the implementation otherwise.
\<close>

record env =
  aes_encrypt :: "string \<Rightarrow> string \<Rightarrow> string \<Rightarrow> string"
  aes_decrypt :: "string \<Rightarrow> string \<Rightarrow> string \<Rightarrow> string option"
  sha256 :: "string \<Rightarrow> string"
  json_stringify :: "sensitive \<Rightarrow> string"
  json_parse :: "string \<Rightarrow> sensitive option"
  random_hex :: "nat \<Rightarrow> string"
  date_now :: "nat \<Rightarrow> int"
  toISOString :: "int \<Rightarrow> string"
  date_getTime :: "string \<Rightarrow> int option"
  array_sort :: "(message \<Rightarrow> message \<Rightarrow> int option) \<Rightarrow> message list \<Rightarrow> message list"
  openDB_ok :: "nat \<Rightarrow> bool"

text \<open>
  The database (three object stores), the \<^verbatim>\<open>localStorage\<close> item
  \<^verbatim>\<open>librechat_master_key\<close> and the fields of the ClientStorage object. An object store
  with an in-line key path is the list of its records; \<open>settings_store\<close> is the value
  of the record with key \<^verbatim>\<open>global\<close>.
\<close>

record state =
  conversations_store :: "conversation list"
  messages_store :: "message list"
  settings_store :: "storage_settings option"
  master_key_item :: "string option"
  encryptionKey :: "string option"
  isInitialized :: bool
  tick :: nat

type_synonym 'a outcome = "((error + 'a) \<times> state) option"

text \<open>JavaScript truthiness of a possibly missing string: the empty string is falsy.\<close>

fun truthy :: "string option \<Rightarrow> bool" where
  "truthy None = False"
| "truthy (Some s) = (s \<noteq> [])"

definition default_settings :: storage_settings where
  "default_settings =
     \<lparr>encryptionEnabled = False, backupEnabled = True, masterKeyHash = None,
      lastBackup = None, maxStorageSize = Some (100 * 1024 * 1024)\<rparr>"

text \<open>\<^verbatim>\<open>settings?.value || { encryptionEnabled: false, ... }\<close> in \<^verbatim>\<open>getSettings\<close>\<close>

definition stored_settings :: "state \<Rightarrow> storage_settings" where
  "stored_settings s =
     (case settings_store s of Some v \<Rightarrow> v | None \<Rightarrow> default_settings)"

subsection \<open>Initialization, settings\<close>

text \<open>
  \<^verbatim>\<open>initializeStorage\<close>, \<^verbatim>\<open>initializeEncryption\<close>, \<^verbatim>\<open>getSettings\<close>,
  \<^verbatim>\<open>updateSettings\<close> and \<^verbatim>\<open>ensureInitialized\<close> call each other:
  \<^verbatim>\<open>initializeEncryption\<close> starts with \<^verbatim>\<open>await this.getSettings()\<close>, which starts with
  \<^verbatim>\<open>await this.ensureInitialized()\<close>, which calls \<^verbatim>\<open>initializeStorage\<close> again while
  \<^verbatim>\<open>isInitialized\<close> is still false. The recursion is bounded by fuel: \<open>None\<close> means
  that the promise is still pending after that many nested calls of
  \<^verbatim>\<open>initializeStorage\<close>. \<open>Inl e\<close> is a rejected promise.
\<close>

fun initializeStorage :: "env \<Rightarrow> nat \<Rightarrow> state \<Rightarrow> unit outcome"
and initializeEncryption :: "env \<Rightarrow> nat \<Rightarrow> state \<Rightarrow> unit outcome"
and getSettings :: "env \<Rightarrow> nat \<Rightarrow> state \<Rightarrow> storage_settings outcome"
and updateSettings :: "env \<Rightarrow> nat \<Rightarrow> storage_settings \<Rightarrow> state \<Rightarrow> unit outcome"
and ensureInitialized :: "env \<Rightarrow> nat \<Rightarrow> state \<Rightarrow> unit outcome"
where
  "initializeStorage E 0 s = None"
| "initializeStorage E (Suc n) s =
     (if openDB_ok E (tick s) then
        (case initializeEncryption E n (s\<lparr>tick := tick s + 1\<rparr>) of
           None \<Rightarrow> None
         | Some (Inl e, s') \<Rightarrow> Some (Inl e, s')
         | Some (Inr u, s') \<Rightarrow> Some (Inr (), s'\<lparr>isInitialized := True\<rparr>))
      else Some (Inl OpenDBFailed, s\<lparr>tick := tick s + 1\<rparr>))"
| "initializeEncryption E n s =
     (case getSettings E n s of
        None \<Rightarrow> None
      | Some (Inl e, s1) \<Rightarrow> Some (Inr (), s1\<lparr>encryptionKey := None\<rparr>)
      | Some (Inr settings, s1) \<Rightarrow>
          (if \<not> encryptionEnabled settings then
             (let masterKey = random_hex E (tick s1);
                  s2 = s1\<lparr>encryptionKey := Some masterKey, tick := tick s1 + 1\<rparr>
              in case updateSettings E n
                        (settings\<lparr>encryptionEnabled := True,
                                  masterKeyHash := Some (sha256 E masterKey)\<rparr>) s2 of
                   None \<Rightarrow> None
                 | Some (Inl e, s3) \<Rightarrow> Some (Inr (), s3\<lparr>encryptionKey := None\<rparr>)
                 | Some (Inr u, s3) \<Rightarrow> Some (Inr (), s3))
           else if truthy (masterKeyHash settings) then
             (if truthy (master_key_item s1) \<and>
                 map_option (sha256 E) (master_key_item s1) = masterKeyHash settings
              then Some (Inr (), s1\<lparr>encryptionKey := master_key_item s1\<rparr>)
              else
                (let masterKey = random_hex E (tick s1);
                     s2 = s1\<lparr>encryptionKey := Some masterKey,
                             master_key_item := Some masterKey, tick := tick s1 + 1\<rparr>
                 in case updateSettings E n
                           (settings\<lparr>masterKeyHash := Some (sha256 E masterKey)\<rparr>) s2 of
                      None \<Rightarrow> None
                    | Some (Inl e, s3) \<Rightarrow> Some (Inr (), s3\<lparr>encryptionKey := None\<rparr>)
                    | Some (Inr u, s3) \<Rightarrow> Some (Inr (), s3)))
           else Some (Inr (), s1)))"
| "getSettings E n s =
     (case ensureInitialized E n s of
        None \<Rightarrow> None
      | Some (Inl e, s') \<Rightarrow> Some (Inl e, s')
      | Some (Inr u, s') \<Rightarrow>
          Some (Inr (stored_settings s'), s'))"
| "updateSettings E n settings s =
     (case ensureInitialized E n s of
        None \<Rightarrow> None
      | Some (Inl e, s') \<Rightarrow> Some (Inl e, s')
      | Some (Inr u, s') \<Rightarrow> Some (Inr (), s'\<lparr>settings_store := Some settings\<rparr>))"
| "ensureInitialized E n s =
     (if \<not> isInitialized s then initializeStorage E n s else Some (Inr (), s))"

text \<open>
  Sequencing of awaited calls: a pending call leaves the caller pending, a rejected one
  rejects the caller (where the source has no \<^verbatim>\<open>catch\<close> around it).
\<close>

definition await :: "'a outcome \<Rightarrow> ('a \<Rightarrow> state \<Rightarrow> 'b outcome) \<Rightarrow> 'b outcome" where
  "await m k =
     (case m of
        None \<Rightarrow> None
      | Some (Inl e, s) \<Rightarrow> Some (Inl e, s)
      | Some (Inr x, s) \<Rightarrow> k x s)"

subsection \<open>encrypt and decrypt\<close>

definition encrypt :: "env \<Rightarrow> state \<Rightarrow> sensitive \<Rightarrow> error + encrypted_data" where
  "encrypt E s d =
     (if \<not> truthy (encryptionKey s) then Inl EncryptionNotAvailable
      else
        (case encryptionKey s of
           None \<Rightarrow> Inl EncryptionNotAvailable
         | Some k \<Rightarrow>
             (let dataString = json_stringify E d;
                  ivHex = random_hex E (tick s)
              in Inr \<lparr>data = aes_encrypt E dataString k ivHex, iv = ivHex,
                      timestamp = date_now E (tick s)\<rparr>)))"

definition decrypt :: "env \<Rightarrow> state \<Rightarrow> encrypted_data \<Rightarrow> error + sensitive" where
  "decrypt E s b =
     (if \<not> truthy (encryptionKey s) then Inl EncryptionKeyNotAvailable
      else
        (case encryptionKey s of
           None \<Rightarrow> Inl EncryptionKeyNotAvailable
         | Some k \<Rightarrow>
             (case aes_decrypt E (data b) k (iv b) of
                None \<Rightarrow> Inl MalformedUtf8
              | Some dataString \<Rightarrow>
                  (case json_parse E dataString of
                     None \<Rightarrow> Inl JsonSyntaxError
                   | Some d \<Rightarrow> Inr d))))"

subsection \<open>Object stores and their indexes\<close>

text \<open>
  \<^verbatim>\<open>db.put\<close> on a store with an in-line key: the record with the same key is replaced,
  otherwise the record is added. \<open>key\<close> reads the key path.
\<close>

definition put_record :: "('r \<Rightarrow> 'k) \<Rightarrow> 'r \<Rightarrow> 'r list \<Rightarrow> 'r list" where
  "put_record key r store =
     (if key r \<in> set (map key store)
      then map (\<lambda>x. if key x = key r then r else x) store
      else store @ [r])"

definition delete_record :: "('r \<Rightarrow> 'k) \<Rightarrow> 'k \<Rightarrow> 'r list \<Rightarrow> 'r list" where
  "delete_record key k store = filter (\<lambda>x. key x \<noteq> k) store"

definition get_record :: "('r \<Rightarrow> 'k) \<Rightarrow> 'k \<Rightarrow> 'r list \<Rightarrow> 'r option" where
  "get_record key k store = find (\<lambda>x. key x = k) store"

text \<open>
  A put into the conversations store throws a DataError when the key path
  \<^verbatim>\<open>conversationId\<close> yields no valid key (\<^verbatim>\<open>TConversation.conversationId\<close> is
  \<^verbatim>\<open>string | null\<close>).
\<close>

definition put_conversation :: "conversation \<Rightarrow> state \<Rightarrow> unit outcome" where
  "put_conversation r s =
     (case conversationId r of
        None \<Rightarrow> Some (Inl DataError, s)
      | Some k \<Rightarrow>
          Some (Inr (), s\<lparr>conversations_store :=
                            put_record conversationId r (conversations_store s)\<rparr>))"

definition put_message :: "message \<Rightarrow> state \<Rightarrow> unit outcome" where
  "put_message r s =
     Some (Inr (), s\<lparr>messages_store := put_record messageId r (messages_store s)\<rparr>)"

text \<open>
  IndexedDB keys: a number sorts before every string. The key of an index entry is
  the pair of the index key and the primary key; a record whose index key path has
  no value is not in the index.
\<close>

type_synonym idb_key = "bool \<times> int \<times> string"

definition key_number :: "int \<Rightarrow> idb_key" where
  "key_number n = (False, n, [])"

definition key_string :: "string \<Rightarrow> idb_key" where
  "key_string x = (True, 0, x)"

datatype sort_by = CreatedAt | UpdatedAt | LastAccessed

datatype sort_order = Asc | Desc

fun index_key :: "sort_by \<Rightarrow> conversation \<Rightarrow> idb_key option" where
  "index_key CreatedAt c = map_option key_string (createdAt c)"
| "index_key UpdatedAt c = map_option key_string (updatedAt c)"
| "index_key LastAccessed c = map_option key_number (lastAccessed c)"

definition conversations_index :: "sort_by \<Rightarrow> conversation list \<Rightarrow> conversation list" where
  "conversations_index ix store =
     sort_key (\<lambda>c. (index_key ix c, conversationId c))
       (filter (\<lambda>c. index_key ix c \<noteq> None) store)"

text \<open>\<^verbatim>\<open>index.openCursor(null, 'prev' | 'next')\<close>: the entries the cursor will visit.\<close>

definition openCursor :: "sort_order \<Rightarrow> 'r list \<Rightarrow> 'r list" where
  "openCursor dir entries = (case dir of Desc \<Rightarrow> rev entries | Asc \<Rightarrow> entries)"

text \<open>\<^verbatim>\<open>messagesStore.index('conversationId').openCursor(IDBKeyRange.only(id))\<close>\<close>

definition messages_index :: "string \<Rightarrow> message list \<Rightarrow> message list" where
  "messages_index cid store =
     sort_key messageId (filter (\<lambda>m. msg_conversationId m = Some cid) store)"

subsection \<open>Conversations\<close>

definition storeConversation :: "env \<Rightarrow> nat \<Rightarrow> conversation \<Rightarrow> state \<Rightarrow> unit outcome" where
  "storeConversation E n conv s =
     await (ensureInitialized E n s) (\<lambda>u s0.
       let now = date_now E (tick s0);
           storedConversation = conv
             \<lparr>lastAccessed := Some now,
              syncStatus := Some Local,
              updatedAt := (if truthy (updatedAt conv) then updatedAt conv
                            else Some (toISOString E (date_now E (tick s0 + 1))))\<rparr>
       in await (getSettings E n (s0\<lparr>tick := tick s0 + 2\<rparr>)) (\<lambda>settings s1.
            let stored =
              (if encryptionEnabled settings \<and> truthy (encryptionKey s1) then
                 (case encrypt E s1
                         \<lparr>s_promptPrefix = promptPrefix conv, s_title = title conv,
                          s_text = None, s_content = None\<rparr> of
                    Inr encrypted \<Rightarrow>
                      storedConversation
                        \<lparr>encryptedData := Some encrypted, encryptedAt := Some now,
                         promptPrefix := None, title := None\<rparr>
                  | Inl e \<Rightarrow> storedConversation)
               else storedConversation)
            in put_conversation stored (s1\<lparr>tick := tick s1 + 1\<rparr>)))"

text \<open>
  \<^verbatim>\<open>{...stored, ...decrypted, encryptedData: undefined, encryptedAt: undefined}\<close>,
  with the decrypted object read at the two keys \<^verbatim>\<open>storeConversation\<close> writes.
\<close>

definition spread_conversation :: "conversation \<Rightarrow> sensitive \<Rightarrow> conversation" where
  "spread_conversation stored d =
     stored\<lparr>promptPrefix := (case s_promptPrefix d of Some p \<Rightarrow> Some p
                                | None \<Rightarrow> promptPrefix stored),
            title := (case s_title d of Some t \<Rightarrow> Some t | None \<Rightarrow> title stored),
            encryptedData := None, encryptedAt := None\<rparr>"

text \<open>
  The block "Decrypt if needed" of \<^verbatim>\<open>getConversation\<close> and \<^verbatim>\<open>getConversations\<close>:
  a failing \<^verbatim>\<open>decrypt\<close> is caught and the stored record is handed out as it is.
\<close>

definition decrypt_conversation :: "env \<Rightarrow> state \<Rightarrow> conversation \<Rightarrow> conversation" where
  "decrypt_conversation E s stored =
     (case encryptedData stored of
        None \<Rightarrow> stored
      | Some b \<Rightarrow>
          (if truthy (encryptionKey s) then
             (case decrypt E s b of
                Inr d \<Rightarrow> spread_conversation stored d
              | Inl e \<Rightarrow> stored)
           else stored))"

definition getConversation ::
  "env \<Rightarrow> nat \<Rightarrow> string \<Rightarrow> state \<Rightarrow> conversation option outcome" where
  "getConversation E n cid s =
     await (ensureInitialized E n s) (\<lambda>u s0.
       case get_record conversationId (Some cid) (conversations_store s0) of
         None \<Rightarrow> Some (Inr None, s0)
       | Some found \<Rightarrow>
           (let stored = found\<lparr>lastAccessed := Some (date_now E (tick s0))\<rparr>
            in case put_conversation stored (s0\<lparr>tick := tick s0 + 1\<rparr>) of
                 None \<Rightarrow> None
               | Some (Inl e, s1) \<Rightarrow> Some (Inr None, s1)
               | Some (Inr u, s1) \<Rightarrow> Some (Inr (Some (decrypt_conversation E s1 stored)), s1)))"

record list_options =
  cursor :: "string option"
  limit :: "int option"
  sortBy :: "sort_by option"
  sortOrder :: "sort_order option"

record page =
  conversations :: "conversation list"
  nextCursor :: "string option"

text \<open>
  The \<^verbatim>\<open>while (cursor && count < limit)\<close> loop of \<^verbatim>\<open>getConversations\<close>. The
  IndexedDB cursor is the list of the entries not yet visited, its head the current
  entry; the result is the collected page and the cursor at loop exit.
\<close>

fun list_loop ::
  "env \<Rightarrow> state \<Rightarrow> string option \<Rightarrow> int \<Rightarrow> conversation list \<Rightarrow> nat \<Rightarrow> bool \<Rightarrow>
   conversation list \<Rightarrow> conversation list \<times> conversation list" where
  "list_loop E s cur lim [] count shouldStart acc = (acc, [])"
| "list_loop E s cur lim (stored # rest) count shouldStart acc =
     (if int count < lim then
        (if \<not> shouldStart \<and> conversationId stored = cur
         then list_loop E s cur lim rest count True acc
         else if shouldStart
         then list_loop E s cur lim rest (count + 1) shouldStart
                (acc @ [decrypt_conversation E s stored])
         else list_loop E s cur lim rest count shouldStart acc)
      else (acc, stored # rest))"

definition getConversations :: "env \<Rightarrow> nat \<Rightarrow> list_options \<Rightarrow> state \<Rightarrow> page outcome" where
  "getConversations E n options s =
     await (ensureInitialized E n s) (\<lambda>u s0.
       let lim = (case limit options of None \<Rightarrow> 25 | Some l \<Rightarrow> l);
           ix = (case sortBy options of None \<Rightarrow> UpdatedAt | Some b \<Rightarrow> b);
           dir = (case sortOrder options of None \<Rightarrow> Desc | Some d \<Rightarrow> d);
           entries = openCursor dir (conversations_index ix (conversations_store s0));
           (found, rest) =
             list_loop E s0 (cursor options) lim entries 0 (\<not> truthy (cursor options)) []
       in Some (Inr \<lparr>conversations = found,
                     nextCursor = (case rest of [] \<Rightarrow> None | c # cs \<Rightarrow> conversationId c)\<rparr>,
                s0))"

subsection \<open>Messages\<close>

definition storeMessage :: "env \<Rightarrow> nat \<Rightarrow> message \<Rightarrow> state \<Rightarrow> unit outcome" where
  "storeMessage E n msg s =
     await (ensureInitialized E n s) (\<lambda>u s0.
       let storedMessage = msg
             \<lparr>msg_syncStatus := Some Local,
              msg_createdAt := (if truthy (msg_createdAt msg) then msg_createdAt msg
                                else Some (toISOString E (date_now E (tick s0))))\<rparr>
       in await (getSettings E n (s0\<lparr>tick := tick s0 + 1\<rparr>)) (\<lambda>settings s1.
            let stored =
              (if encryptionEnabled settings \<and> truthy (encryptionKey s1) then
                 (case encrypt E s1
                         \<lparr>s_promptPrefix = None, s_title = None,
                          s_text = msg_text msg, s_content = content msg\<rparr> of
                    Inr encrypted \<Rightarrow>
                      storedMessage
                        \<lparr>msg_encryptedData := Some encrypted,
                         msg_encryptedAt := Some (date_now E (tick s1 + 1)),
                         msg_text := None, content := None\<rparr>
                  | Inl e \<Rightarrow> storedMessage)
               else storedMessage)
            in put_message stored (s1\<lparr>tick := tick s1 + 2\<rparr>)))"

definition spread_message :: "message \<Rightarrow> sensitive \<Rightarrow> message" where
  "spread_message stored d =
     stored\<lparr>msg_text := (case s_text d of Some t \<Rightarrow> Some t | None \<Rightarrow> msg_text stored),
            content := (case s_content d of Some c \<Rightarrow> Some c | None \<Rightarrow> content stored),
            msg_encryptedData := None, msg_encryptedAt := None\<rparr>"

definition decrypt_message :: "env \<Rightarrow> state \<Rightarrow> message \<Rightarrow> message" where
  "decrypt_message E s stored =
     (case msg_encryptedData stored of
        None \<Rightarrow> stored
      | Some b \<Rightarrow>
          (if truthy (encryptionKey s) then
             (case decrypt E s b of
                Inr d \<Rightarrow> spread_message stored d
              | Inl e \<Rightarrow> stored)
           else stored))"

text \<open>
  \<^verbatim>\<open>new Date(a.createdAt || '').getTime() - new Date(b.createdAt || '').getTime()\<close>:
  the comparator of the final sort, \<open>None\<close> when the difference is NaN.
\<close>

definition getTime :: "env \<Rightarrow> message \<Rightarrow> int option" where
  "getTime E m =
     date_getTime E (case msg_createdAt m of None \<Rightarrow> [] | Some t \<Rightarrow> t)"

definition compare_createdAt :: "env \<Rightarrow> message \<Rightarrow> message \<Rightarrow> int option" where
  "compare_createdAt E a b =
     (case (getTime E a, getTime E b) of
        (Some ta, Some tb) \<Rightarrow> Some (ta - tb)
      | _ \<Rightarrow> None)"

text \<open>
  The stable insertion sort. With a consistent comparator every conforming
  \<^verbatim>\<open>Array.prototype.sort\<close> returns what it returns; it is the reference for
  \<open>array_sort\<close> on dates and the sort of the environment used for concrete runs.
\<close>

fun insert_sorted :: "('a \<Rightarrow> 'a \<Rightarrow> int option) \<Rightarrow> 'a \<Rightarrow> 'a list \<Rightarrow> 'a list" where
  "insert_sorted cmp x [] = [x]"
| "insert_sorted cmp x (y # ys) =
     (case cmp x y of
        Some d \<Rightarrow> (if d > 0 then y # insert_sorted cmp x ys else x # y # ys)
      | None \<Rightarrow> x # y # ys)"

definition insertion_sort :: "('a \<Rightarrow> 'a \<Rightarrow> int option) \<Rightarrow> 'a list \<Rightarrow> 'a list" where
  "insertion_sort cmp xs = foldr (insert_sorted cmp) xs []"

text \<open>
  An id that is no valid key makes \<^verbatim>\<open>IDBKeyRange.only\<close> throw inside the
  \<^verbatim>\<open>try\<close> block, and the method returns the empty array.
\<close>

definition getMessagesByConversationId ::
  "env \<Rightarrow> nat \<Rightarrow> string option \<Rightarrow> state \<Rightarrow> message list outcome" where
  "getMessagesByConversationId E n cid s =
     await (ensureInitialized E n s) (\<lambda>u s0.
       case cid of
         None \<Rightarrow> Some (Inr [], s0)
       | Some c \<Rightarrow>
           (let messages = map (decrypt_message E s0) (messages_index c (messages_store s0))
            in Some (Inr (array_sort E (compare_createdAt E) messages), s0)))"

subsection \<open>Cascading delete\<close>

text \<open>
  One read-write transaction over both stores: the conversation is deleted, then a cursor
  over the \<^verbatim>\<open>conversationId\<close> index deletes each message it visits.
\<close>

definition deleteConversation :: "env \<Rightarrow> nat \<Rightarrow> string \<Rightarrow> state \<Rightarrow> unit outcome" where
  "deleteConversation E n cid s =
     await (ensureInitialized E n s) (\<lambda>u s0.
       let convs = delete_record conversationId (Some cid) (conversations_store s0);
           visited = messages_index cid (messages_store s0);
           msgs = foldl (\<lambda>store m. delete_record messageId (messageId m) store)
                    (messages_store s0) visited
       in Some (Inr (), s0\<lparr>conversations_store := convs, messages_store := msgs\<rparr>))"

subsection \<open>Export and import\<close>

record snapshot =
  snap_conversations :: "conversation list"
  snap_messages :: "message list"
  snap_settings :: "storage_settings option"
  exportDate :: "string option"



text \<open>
  The two \<^verbatim>\<open>for\<close> loops of \<^verbatim>\<open>importData\<close>. There is no \<^verbatim>\<open>try\<close> inside the loops:
  a rejected \<^verbatim>\<open>storeConversation\<close> or \<^verbatim>\<open>storeMessage\<close> leaves the loop, and the
  \<^verbatim>\<open>catch\<close> around both rethrows.
\<close>

fun import_conversations :: "env \<Rightarrow> nat \<Rightarrow> conversation list \<Rightarrow> state \<Rightarrow> unit outcome" where
  "import_conversations E n [] s = Some (Inr (), s)"
| "import_conversations E n (c # cs) s =
     await (storeConversation E n c s) (\<lambda>u s'. import_conversations E n cs s')"

fun import_messages :: "env \<Rightarrow> nat \<Rightarrow> message list \<Rightarrow> state \<Rightarrow> unit outcome" where
  "import_messages E n [] s = Some (Inr (), s)"
| "import_messages E n (m # ms) s =
     await (storeMessage E n m s) (\<lambda>u s'. import_messages E n ms s')"

definition importData :: "env \<Rightarrow> nat \<Rightarrow> snapshot \<Rightarrow> state \<Rightarrow> unit outcome" where
  "importData E n snap s =
     await (ensureInitialized E n s) (\<lambda>u s0.
       await (import_conversations E n (snap_conversations snap) s0) (\<lambda>u s1.
         await (import_messages E n (snap_messages snap) s1) (\<lambda>u s2.
           case snap_settings snap of
             Some settings \<Rightarrow> updateSettings E n settings s2
           | None \<Rightarrow> Some (Inr (), s2))))"

subsection \<open>Storage statistics\<close>

record storage_stats =
  conversationCount :: nat
  messageCount :: nat
  estimatedSizeBytes :: nat

definition getStorageStats :: "env \<Rightarrow> nat \<Rightarrow> state \<Rightarrow> storage_stats outcome" where
  "getStorageStats E n s =
     await (ensureInitialized E n s) (\<lambda>u s0.
       let cc = length (conversations_store s0);
           mc = length (messages_store s0)
       in Some (Inr \<lparr>conversationCount = cc, messageCount = mc,
                     estimatedSizeBytes = cc * 1000 + mc * 500\<rparr>, s0))"

subsection \<open>The caller that follows nextCursor\<close>

text \<open>
  \<^verbatim>\<open>useGetConversationsClient\<close> fetches the next page with
  \<^verbatim>\<open>getNextPageParam: (lastPage) => lastPage.nextCursor\<close>, and \<^verbatim>\<open>getConversations(cursor)\<close>
  of the client data service passes it as \<^verbatim>\<open>cursor\<close>; there is no next page when
  \<^verbatim>\<open>nextCursor\<close> is undefined. \<open>rounds\<close> bounds the number of pages fetched.
\<close>

fun fetch_pages ::
  "env \<Rightarrow> nat \<Rightarrow> nat \<Rightarrow> int option \<Rightarrow> string option \<Rightarrow> state \<Rightarrow> conversation list outcome"
where
  "fetch_pages E n 0 lim cur s = None"
| "fetch_pages E n (Suc rounds) lim cur s =
     await (getConversations E n
              \<lparr>cursor = cur, limit = lim, sortBy = None, sortOrder = None\<rparr> s) (\<lambda>p s'.
       case nextCursor p of
         None \<Rightarrow> Some (Inr (conversations p), s')
       | Some c \<Rightarrow>
           await (fetch_pages E n rounds lim (Some c) s') (\<lambda>more s''.
             Some (Inr (conversations p @ more), s'')))"

subsection \<open>A small environment and stores for concrete runs\<close>

text \<open>
  A stand-in for the libraries, used only to run the methods on concrete inputs: a
  cipher that writes the key in front of the reversed text and, to decrypt, wants the key
  in front (anything else is malformed); a serialisation of the objects that hold a title
  or a text; decimal strings as dates; the insertion sort.
\<close>

definition demo_stringify :: "sensitive \<Rightarrow> string" where
  "demo_stringify d =
     (case s_title d of
        Some t \<Rightarrow> CHR ''T'' # t
      | None \<Rightarrow> (case s_text d of Some t \<Rightarrow> CHR ''X'' # t | None \<Rightarrow> ''{}''))"

definition demo_parse :: "string \<Rightarrow> sensitive option" where
  "demo_parse str =
     (case str of
        [] \<Rightarrow> None
      | c # t \<Rightarrow>
          (if c = CHR ''T''
           then Some \<lparr>s_promptPrefix = None, s_title = Some t, s_text = None, s_content = None\<rparr>
           else if c = CHR ''X''
           then Some \<lparr>s_promptPrefix = None, s_title = None, s_text = Some t, s_content = None\<rparr>
           else if str = ''{}''
           then Some \<lparr>s_promptPrefix = None, s_title = None, s_text = None, s_content = None\<rparr>
           else None))"

definition demo_decrypt :: "string \<Rightarrow> string \<Rightarrow> string option" where
  "demo_decrypt c k =
     (if take (length k) c = k then Some (rev (drop (length k) c)) else None)"

definition demo_getTime :: "string \<Rightarrow> int option" where
  "demo_getTime x =
     (if x \<noteq> [] \<and> list_all (\<lambda>c. CHR ''0'' \<le> c \<and> c \<le> CHR ''9'') x
      then Some (foldl (\<lambda>n c. 10 * n + (of_char c - 48)) 0 x) else None)"

definition demo_env :: "(nat \<Rightarrow> bool) \<Rightarrow> env" where
  "demo_env opens =
     \<lparr>aes_encrypt = (\<lambda>p k i. k @ rev p),
      aes_decrypt = (\<lambda>c k i. demo_decrypt c k),
      sha256 = (\<lambda>x. CHR ''#'' # x),
      json_stringify = demo_stringify,
      json_parse = demo_parse,
      random_hex = (\<lambda>t. replicate (Suc t) CHR ''a''),
      date_now = (\<lambda>t. 1000 + int t),
      toISOString = (\<lambda>t. ''2025-01-01T00:00:00.000Z''),
      date_getTime = demo_getTime,
      array_sort = insertion_sort,
      openDB_ok = opens\<rparr>"

definition demo_conversation :: "string \<Rightarrow> string \<Rightarrow> conversation" where
  "demo_conversation i u =
     \<lparr>conversationId = Some i, title = None, endpoint = None, model = None,
      promptPrefix = None, createdAt = None, updatedAt = Some u, encryptedData = None,
      encryptedAt = None, lastAccessed = None, syncStatus = Some Local\<rparr>"

definition demo_message :: "string \<Rightarrow> string \<Rightarrow> string \<Rightarrow> string \<Rightarrow> message" where
  "demo_message i c t d =
     \<lparr>messageId = i, msg_conversationId = Some c, parentMessageId = None,
      isCreatedByUser = True, msg_text = Some t, content = None, msg_createdAt = Some d,
      msg_encryptedData = None, msg_encryptedAt = None, msg_syncStatus = Some Local\<rparr>"

text \<open>An initialized store without a key, and a new ClientStorage object on a database.\<close>

definition demo_ready :: "conversation list \<Rightarrow> message list \<Rightarrow> state" where
  "demo_ready cs ms =
     \<lparr>conversations_store = cs, messages_store = ms, settings_store = None,
      master_key_item = None, encryptionKey = None, isInitialized = True, tick = 0\<rparr>"

definition demo_new :: "storage_settings option \<Rightarrow> state" where
  "demo_new st =
     \<lparr>conversations_store = [], messages_store = [], settings_store = st,
      master_key_item = None, encryptionKey = None, isInitialized = False, tick = 0\<rparr>"

text \<open>A new ClientStorage object on a database that holds conversations and messages.\<close>

definition demo_constructed :: "conversation list \<Rightarrow> message list \<Rightarrow> state" where
  "demo_constructed cs ms =
     \<lparr>conversations_store = cs, messages_store = ms, settings_store = None,
      master_key_item = None, encryptionKey = None, isInitialized = False, tick = 0\<rparr>"


definition demo_keyed :: "state \<Rightarrow> state" where
  "demo_keyed s =
     s\<lparr>encryptionKey := Some ''k'',
       settings_store := Some (default_settings\<lparr>encryptionEnabled := True\<rparr>)\<rparr>"

subsection \<open>Order by creation time\<close>

text \<open>Both creation times are dates and the first is not after the second.\<close>

definition createdAt_le :: "env \<Rightarrow> message \<Rightarrow> message \<Rightarrow> bool" where
  "createdAt_le E a b =
     (case (getTime E a, getTime E b) of (Some ta, Some tb) \<Rightarrow> ta \<le> tb | _ \<Rightarrow> False)"

text \<open>
  What ECMAScript says of \<^verbatim>\<open>Array.prototype.sort\<close>: the result is a rearrangement of
  the array; and where the comparator is consistent, here where every \<open>createdAt\<close> is a
  date, it is the stable sorted order, which the insertion sort computes.
\<close>

definition sort_permutes :: "env \<Rightarrow> bool" where
  "sort_permutes E =
     (\<forall>cmp xs. set (array_sort E cmp xs) = set xs \<and>
               length (array_sort E cmp xs) = length xs)"

definition sort_orders_dates :: "env \<Rightarrow> bool" where
  "sort_orders_dates E =
     (\<forall>xs. (\<forall>x\<in>set xs. getTime E x \<noteq> None) \<longrightarrow>
           array_sort E (compare_createdAt E) xs = insertion_sort (compare_createdAt E) xs)"

subsection \<open>The key and the encryption flag\<close>

text \<open>If the object holds a key, the persisted settings record says encryption is enabled.\<close>

definition key_implies_flag :: "state \<Rightarrow> bool" where
  "key_implies_flag s =
     (encryptionKey s \<noteq> None \<longrightarrow>
      (case settings_store s of Some v \<Rightarrow> encryptionEnabled v | None \<Rightarrow> False))"

subsection \<open>The record a store call writes\<close>

text \<open>
  The record that \<^verbatim>\<open>storeConversation\<close> and \<^verbatim>\<open>storeMessage\<close> hand to \<^verbatim>\<open>db.put\<close>
  when called on the initialized store \<open>s\<close>; the lemmas \<open>storeConversation_ready\<close> and
  \<open>storeMessage_ready\<close> relate them to the methods.
\<close>

definition written_conversation :: "env \<Rightarrow> state \<Rightarrow> conversation \<Rightarrow> conversation" where
  "written_conversation E s conv =
     (let now = date_now E (tick s);
          storedConversation = conv
            \<lparr>lastAccessed := Some now,
             syncStatus := Some Local,
             updatedAt := (if truthy (updatedAt conv) then updatedAt conv
                           else Some (toISOString E (date_now E (tick s + 1))))\<rparr>
      in if encryptionEnabled (stored_settings s) \<and> truthy (encryptionKey s) then
           (case encrypt E (s\<lparr>tick := tick s + 2\<rparr>)
                   \<lparr>s_promptPrefix = promptPrefix conv, s_title = title conv,
                    s_text = None, s_content = None\<rparr> of
              Inr encrypted \<Rightarrow>
                storedConversation
                  \<lparr>encryptedData := Some encrypted, encryptedAt := Some now,
                   promptPrefix := None, title := None\<rparr>
            | Inl e \<Rightarrow> storedConversation)
         else storedConversation)"

definition written_message :: "env \<Rightarrow> state \<Rightarrow> message \<Rightarrow> message" where
  "written_message E s msg =
     (let storedMessage = msg
            \<lparr>msg_syncStatus := Some Local,
             msg_createdAt := (if truthy (msg_createdAt msg) then msg_createdAt msg
                               else Some (toISOString E (date_now E (tick s))))\<rparr>
      in if encryptionEnabled (stored_settings s) \<and> truthy (encryptionKey s) then
           (case encrypt E (s\<lparr>tick := tick s + 1\<rparr>)
                   \<lparr>s_promptPrefix = None, s_title = None,
                    s_text = msg_text msg, s_content = content msg\<rparr> of
              Inr encrypted \<Rightarrow>
                storedMessage
                  \<lparr>msg_encryptedData := Some encrypted,
                   msg_encryptedAt := Some (date_now E (tick s + 2)),
                   msg_text := None, content := None\<rparr>
            | Inl e \<Rightarrow> storedMessage)
         else storedMessage)"

text \<open>
  The store after \<^verbatim>\<open>storeConversation\<close> has put each conversation of a list in turn,
  and after \<^verbatim>\<open>storeMessage\<close> has put each message of a list in turn, on an initialized
  store; each call advances the tick by three.
\<close>

fun write_conversations :: "env \<Rightarrow> conversation list \<Rightarrow> state \<Rightarrow> state" where
  "write_conversations E [] s = s"
| "write_conversations E (c # cs) s =
     write_conversations E cs
       (s\<lparr>tick := tick s + 3,
          conversations_store :=
            put_record conversationId (written_conversation E s c) (conversations_store s)\<rparr>)"

fun write_messages :: "env \<Rightarrow> message list \<Rightarrow> state \<Rightarrow> state" where
  "write_messages E [] s = s"
| "write_messages E (m # ms) s =
     write_messages E ms
       (s\<lparr>tick := tick s + 3,
          messages_store :=
            put_record messageId (written_message E s m) (messages_store s)\<rparr>)"

subsection \<open>Content of a stored record\<close>



text \<open>
  What a stored conversation says: the record as the decrypt step hands it out, leaving
  \<open>lastAccessed\<close> aside. For a message it is \<open>decrypt_message\<close> itself.
\<close>

definition conversation_content :: "env \<Rightarrow> state \<Rightarrow> conversation \<Rightarrow> conversation" where
  "conversation_content E s c = (decrypt_conversation E s c)\<lparr>lastAccessed := None\<rparr>"









section \<open>Properties\<close>

subsection \<open>Initialized stores\<close>

lemma ensureInitialized_ready:
  "isInitialized s \<Longrightarrow> ensureInitialized E n s = Some (Inr (), s)"
  by simp

lemma getSettings_ready:
  "isInitialized s \<Longrightarrow> getSettings E n s = Some (Inr (stored_settings s), s)"
  by simp

lemma updateSettings_ready:
  "isInitialized s \<Longrightarrow>
   updateSettings E n v s = Some (Inr (), s\<lparr>settings_store := Some v\<rparr>)"
  by simp

lemma initializeStorage_Inr:
  "initializeStorage E n s = Some (Inr u, s') \<Longrightarrow> isInitialized s'"
  by (cases n) (auto split: if_splits option.splits sum.splits prod.splits)

lemma ensureInitialized_Inr:
  "ensureInitialized E n s = Some (Inr u, s') \<Longrightarrow> isInitialized s'"
  using initializeStorage_Inr by (auto split: if_splits)

declare initializeStorage.simps [simp del] initializeEncryption.simps [simp del]
  getSettings.simps [simp del] updateSettings.simps [simp del]
  ensureInitialized.simps [simp del]

lemma await_Some_Inr:
  "(await m k = Some (Inr x, s')) =
   (\<exists>y s0. m = Some (Inr y, s0) \<and> k y s0 = Some (Inr x, s'))"
  by (auto simp: await_def split: option.splits sum.splits prod.splits)

subsection \<open>A new object\<close>

text \<open>
  While every \<^verbatim>\<open>openDB\<close> succeeds, an initialization never completes: each
  \<^verbatim>\<open>initializeStorage\<close> waits for a nested one.
\<close>

lemma initializeStorage_pending:
  "\<forall>t. openDB_ok E t \<Longrightarrow> \<not> isInitialized s \<Longrightarrow> initializeStorage E n s = None"
proof (induction n arbitrary: s)
  case 0
  show ?case by (simp add: initializeStorage.simps)
next
  case (Suc n)
  have "initializeStorage E n (s\<lparr>tick := tick s + 1\<rparr>) = None"
    using Suc.prems by (intro Suc.IH) simp_all
  then have "initializeEncryption E n (s\<lparr>tick := tick s + 1\<rparr>) = None"
    using Suc.prems(2)
    by (simp add: initializeEncryption.simps getSettings.simps ensureInitialized.simps)
  then show ?case using Suc.prems(1) by (simp add: initializeStorage.simps)
qed

lemma ensureInitialized_pending:
  "\<forall>t. openDB_ok E t \<Longrightarrow> \<not> isInitialized s \<Longrightarrow> ensureInitialized E n s = None"
  by (simp add: ensureInitialized.simps initializeStorage_pending)

lemma await_pending: "await None k = None"
  by (simp add: await_def)

lemma demo_env_opens: "\<forall>t. openDB_ok (demo_env (\<lambda>t. True)) t"
  by (simp add: demo_env_def)

subsection \<open>Pagination\<close>

text \<open>
  Claim C1 (pagination completeness: following \<open>nextCursor\<close> yields every conversation
  once, the cursor being the id of the last item of the previous page).
  \<^verbatim>\<open>getConversations\<close> resumes after the record whose id is the cursor, but the
  \<open>nextCursor\<close> it returns is the id of the record the IndexedDB cursor stands on at loop
  exit, the first record \<^emph>\<open>not\<close> returned. Run on three conversations a, b, c (updated
  at 1, 2, 3) with page size 1 and the default order: the first page is [c] with
  \<open>nextCursor\<close> b, the second call skips b and returns [a]. The pages hold c and a;
  b is on no page.
\<close>

theorem fetch_pages_omits_the_cursor_record:
  "(case fetch_pages (demo_env (\<lambda>t. True)) 0 3 (Some 1) None
           (demo_ready [demo_conversation ''a'' ''1'', demo_conversation ''b'' ''2'',
                        demo_conversation ''c'' ''3''] []) of
      Some (Inr cs, s') \<Rightarrow> map conversationId cs = [Some ''c'', Some ''a'']
    | _ \<Rightarrow> False)"
  by code_simp

subsection \<open>Cascading delete\<close>

lemma set_messages_index:
  "set (messages_index cid store) = {m \<in> set store. msg_conversationId m = Some cid}"
  by (auto simp: messages_index_def)

lemma set_foldl_delete:
  "set (foldl (\<lambda>store m. delete_record messageId (messageId m) store) store ms) =
   {x \<in> set store. messageId x \<notin> messageId ` set ms}"
  by (induction ms arbitrary: store) (auto simp: delete_record_def)

lemma messages_index_empty:
  "\<forall>m\<in>set store. msg_conversationId m \<noteq> Some cid \<Longrightarrow> messages_index cid store = []"
  by (simp add: messages_index_def filter_empty_conv)

lemma get_record_delete:
  "get_record key k (delete_record key k store) = None"
  by (auto simp: get_record_def delete_record_def find_None_iff)

lemma deleteConversation_Inr:
  assumes "deleteConversation E n cid s = Some (Inr u, s')"
  shows "\<exists>s0. isInitialized s0 \<and>
     s' = s0\<lparr>conversations_store :=
               delete_record conversationId (Some cid) (conversations_store s0),
             messages_store :=
               foldl (\<lambda>store m. delete_record messageId (messageId m) store)
                 (messages_store s0) (messages_index cid (messages_store s0))\<rparr>"
  using assms unfolding deleteConversation_def await_Some_Inr
  by (auto simp: Let_def dest: ensureInitialized_Inr)

text \<open>
  On an initialized store \<^verbatim>\<open>deleteConversation\<close> returns, and whenever it returns the
  state it leaves, written in one step as the single transaction does, has no
  conversation with that id and no message whose \<open>conversationId\<close> is that id; the
  listing of the conversation is then empty.
\<close>

lemma deleteConversation_on_initialized:
  "(isInitialized s \<longrightarrow> (\<exists>s'. deleteConversation E n cid s = Some (Inr (), s'))) \<and>
   (\<forall>u s'. deleteConversation E n cid s = Some (Inr u, s') \<longrightarrow>
      get_record conversationId (Some cid) (conversations_store s') = None \<and>
      (\<forall>m\<in>set (messages_store s'). msg_conversationId m \<noteq> Some cid) \<and>
      (sort_permutes E \<longrightarrow>
         getMessagesByConversationId E k (Some cid) s' = Some (Inr [], s')))"
proof (intro conjI allI impI)
  assume "isInitialized s"
  then show "\<exists>s'. deleteConversation E n cid s = Some (Inr (), s')"
    by (simp add: deleteConversation_def await_def Let_def ensureInitialized_ready)
next
  fix u s'
  assume del: "deleteConversation E n cid s = Some (Inr u, s')"
  then obtain s0 where ready0: "isInitialized s0"
    and s': "s' = s0\<lparr>conversations_store :=
                      delete_record conversationId (Some cid) (conversations_store s0),
                    messages_store :=
                      foldl (\<lambda>store m. delete_record messageId (messageId m) store)
                        (messages_store s0) (messages_index cid (messages_store s0))\<rparr>"
    using deleteConversation_Inr by blast
  from ready0 have ready: "isInitialized s'" by (simp add: s')
  show "get_record conversationId (Some cid) (conversations_store s') = None"
    by (simp add: s' get_record_delete)
  show none: "\<forall>m\<in>set (messages_store s'). msg_conversationId m \<noteq> Some cid"
    by (auto simp: s' set_foldl_delete set_messages_index)
  assume "sort_permutes E"
  then have "length (array_sort E (compare_createdAt E) []) = 0"
    by (simp add: sort_permutes_def)
  then show "getMessagesByConversationId E k (Some cid) s' = Some (Inr [], s')"
    using ready messages_index_empty [OF none]
    by (simp add: getMessagesByConversationId_def await_def ensureInitialized_ready)
qed

text \<open>
  Claim C6 (\<^verbatim>\<open>deleteConversation(id)\<close> removes the conversation and its messages, and
  the listing of the conversation is then empty). The method starts with
  \<^verbatim>\<open>await this.ensureInitialized()\<close>. On the object that \<^verbatim>\<open>new ClientStorage()\<close>
  builds, \<open>isInitialized\<close> is false, and the initialization waits for itself
  (\<open>initializeStorage_pending\<close>): with every \<^verbatim>\<open>openDB\<close> succeeding the call is still
  pending after any number of nested initializations, it never returns and deletes
  nothing. Run on a database with the conversation c1 and a message of c1.
\<close>

theorem deleteConversation_never_returns:
  "\<forall>n. deleteConversation (demo_env (\<lambda>t. True)) n ''c1''
         (demo_constructed [demo_conversation ''c1'' ''1'']
            [demo_message ''m1'' ''c1'' ''hi'' ''1'']) = None"
proof
  fix n
  have "\<not> isInitialized (demo_constructed [demo_conversation ''c1'' ''1'']
            [demo_message ''m1'' ''c1'' ''hi'' ''1''])"
    by (simp add: demo_constructed_def)
  with demo_env_opens show "deleteConversation (demo_env (\<lambda>t. True)) n ''c1''
         (demo_constructed [demo_conversation ''c1'' ''1'']
            [demo_message ''m1'' ''c1'' ''hi'' ''1'']) = None"
    by (simp add: deleteConversation_def ensureInitialized_pending await_pending)
qed

subsection \<open>Writes on an initialized store\<close>

lemma storeMessage_ready:
  "isInitialized s \<Longrightarrow>
   storeMessage E n m s =
     Some (Inr (), s\<lparr>tick := tick s + 3,
                     messages_store := put_record messageId (written_message E s m) (messages_store s)\<rparr>)"
  by (simp add: storeMessage_def await_def ensureInitialized_ready getSettings_ready
      written_message_def put_message_def Let_def encrypt_def stored_settings_def
      split: option.splits sum.splits)

lemma storeConversation_ready:
  "isInitialized s \<Longrightarrow>
   storeConversation E n c s =
     put_conversation (written_conversation E s c) (s\<lparr>tick := tick s + 3\<rparr>)"
  by (auto simp: storeConversation_def await_def ensureInitialized_ready getSettings_ready
      written_conversation_def Let_def encrypt_def stored_settings_def put_conversation_def
      split: option.splits sum.splits)



lemma key_in_put_record: "key r \<in> key ` set (put_record key r store)"
  by (auto simp: put_record_def image_iff)

lemma messageId_written_message [simp]: "messageId (written_message E s m) = messageId m"
  by (simp add: written_message_def Let_def split: sum.splits)

lemma conversationId_written_conversation [simp]:
  "conversationId (written_conversation E s c) = conversationId c"
  by (simp add: written_conversation_def Let_def split: sum.splits)

lemma encrypt_truthy:
  "encryptionKey s = Some k \<Longrightarrow> k \<noteq> [] \<Longrightarrow>
   encrypt E s d =
     Inr \<lparr>data = aes_encrypt E (json_stringify E d) k (random_hex E (tick s)),
          iv = random_hex E (tick s), timestamp = date_now E (tick s)\<rparr>"
  by (simp add: encrypt_def Let_def)

lemma truthy_iff: "truthy x = (\<exists>k. x = Some k \<and> k \<noteq> [])"
  by (cases x) auto

lemma written_message_plain:
  "\<not> (encryptionEnabled (stored_settings s) \<and> truthy (encryptionKey s)) \<Longrightarrow>
   written_message E s m =
     m\<lparr>msg_syncStatus := Some Local,
       msg_createdAt := (if truthy (msg_createdAt m) then msg_createdAt m
                         else Some (toISOString E (date_now E (tick s))))\<rparr>"
  by (auto simp: written_message_def Let_def)

lemma written_message_encrypted:
  "encryptionEnabled (stored_settings s) \<Longrightarrow> encryptionKey s = Some k \<Longrightarrow> k \<noteq> [] \<Longrightarrow>
   written_message E s m =
     m\<lparr>msg_syncStatus := Some Local,
       msg_createdAt := (if truthy (msg_createdAt m) then msg_createdAt m
                         else Some (toISOString E (date_now E (tick s)))),
       msg_encryptedData :=
         Some \<lparr>data = aes_encrypt E
                        (json_stringify E \<lparr>s_promptPrefix = None, s_title = None,
                           s_text = msg_text m, s_content = content m\<rparr>)
                        k (random_hex E (tick s + 1)),
               iv = random_hex E (tick s + 1), timestamp = date_now E (tick s + 1)\<rparr>,
       msg_encryptedAt := Some (date_now E (tick s + 2)),
       msg_text := None, content := None\<rparr>"
  by (simp add: written_message_def encrypt_truthy Let_def)

lemma written_message_maxStorageSize:
  "written_message E (s\<lparr>settings_store := Some (v\<lparr>maxStorageSize := q\<rparr>)\<rparr>) m =
   written_message E (s\<lparr>settings_store := Some v\<rparr>) m"
proof (cases "encryptionEnabled v \<and> truthy (encryptionKey s)")
  case True
  then obtain k where k: "encryptionKey s = Some k" "k \<noteq> []"
    by (auto simp: truthy_iff)
  with True show ?thesis
    by (simp add: written_message_encrypted [where k = k] stored_settings_def)
next
  case False
  then show ?thesis
    by (simp add: written_message_plain stored_settings_def)
qed

subsection \<open>Quota\<close>

text \<open>
  Claim C3 (a \<^verbatim>\<open>storeMessage\<close> with \<open>maxStorageSize\<close> below the estimated usage fails with
  a QuotaExceededError and writes nothing) does not hold: no method reads
  \<open>maxStorageSize\<close>. With one stored message (estimated 500 bytes) and \<open>maxStorageSize\<close>
  100, \<^verbatim>\<open>storeMessage\<close> returns normally and the store holds both messages.
\<close>

theorem storeMessage_over_quota_counterexample:
  "(case getStorageStats (demo_env (\<lambda>t. True)) 0
           ((demo_ready [] [demo_message ''m1'' ''c1'' ''hi'' ''1''])
              \<lparr>settings_store := Some (default_settings\<lparr>maxStorageSize := Some 100\<rparr>)\<rparr>) of
      Some (Inr stats, s0) \<Rightarrow>
        maxStorageSize (stored_settings s0) = Some 100 \<and> 100 < int (estimatedSizeBytes stats)
    | _ \<Rightarrow> False) \<and>
   (case storeMessage (demo_env (\<lambda>t. True)) 0 (demo_message ''m2'' ''c1'' ''there'' ''2'')
           ((demo_ready [] [demo_message ''m1'' ''c1'' ''hi'' ''1''])
              \<lparr>settings_store := Some (default_settings\<lparr>maxStorageSize := Some 100\<rparr>)\<rparr>) of
      Some (Inr u, s') \<Rightarrow> map messageId (messages_store s') = [''m1'', ''m2'']
    | _ \<Rightarrow> False)"
  by code_simp

text \<open>
  Claim C3 as amended: \<^verbatim>\<open>storeMessage\<close> does not consult \<open>maxStorageSize\<close>. On an
  initialized store, whatever value \<open>q\<close> the setting has, the call returns normally, the
  message store then holds a record with the id of the message, and it is the same store
  as without that value.
\<close>

theorem storeMessage_ignores_maxStorageSize:
  assumes "isInitialized s"
  shows "\<exists>s' s''.
     storeMessage E n m (s\<lparr>settings_store := Some (v\<lparr>maxStorageSize := q\<rparr>)\<rparr>) = Some (Inr (), s') \<and>
     storeMessage E n m (s\<lparr>settings_store := Some v\<rparr>) = Some (Inr (), s'') \<and>
     messages_store s' = messages_store s'' \<and>
     messageId m \<in> messageId ` set (messages_store s')"
  using assms key_in_put_record [of messageId "written_message E (s\<lparr>settings_store := Some v\<rparr>) m" "messages_store s"]
  by (simp add: storeMessage_ready written_message_maxStorageSize)

theorem storeMessage_ignores_maxStorageSize_witness:
  "isInitialized (demo_ready [] [demo_message ''m1'' ''c1'' ''hi'' ''1'']) \<and>
   (\<exists>s' s''.
     storeMessage (demo_env (\<lambda>t. True)) 0 (demo_message ''m2'' ''c1'' ''there'' ''2'')
       ((demo_ready [] [demo_message ''m1'' ''c1'' ''hi'' ''1''])
          \<lparr>settings_store := Some (default_settings\<lparr>maxStorageSize := Some 100\<rparr>)\<rparr>) = Some (Inr (), s') \<and>
     storeMessage (demo_env (\<lambda>t. True)) 0 (demo_message ''m2'' ''c1'' ''there'' ''2'')
       ((demo_ready [] [demo_message ''m1'' ''c1'' ''hi'' ''1''])
          \<lparr>settings_store := Some default_settings\<rparr>) = Some (Inr (), s'') \<and>
     messages_store s' = messages_store s'' \<and>
     messageId (demo_message ''m2'' ''c1'' ''there'' ''2'') \<in> messageId ` set (messages_store s'))"
proof -
  have r: "isInitialized (demo_ready [] [demo_message ''m1'' ''c1'' ''hi'' ''1''])"
    by (simp add: demo_ready_def)
  from r storeMessage_ignores_maxStorageSize [OF r] show ?thesis by blast
qed

subsection \<open>Import\<close>

lemma await_assoc:
  "await (await m f) g = await m (\<lambda>x s. await (f x s) g)"
  by (auto simp: await_def split: option.splits sum.splits prod.splits)

lemma storeConversation_valid:
  "isInitialized s \<Longrightarrow> conversationId c \<noteq> None \<Longrightarrow>
   storeConversation E n c s =
     Some (Inr (), s\<lparr>tick := tick s + 3,
                     conversations_store :=
                       put_record conversationId (written_conversation E s c)
                         (conversations_store s)\<rparr>)"
  by (auto simp: storeConversation_ready put_conversation_def)

lemma storeConversation_invalid:
  "isInitialized s \<Longrightarrow> conversationId c = None \<Longrightarrow>
   storeConversation E n c s = Some (Inl DataError, s\<lparr>tick := tick s + 3\<rparr>)"
  by (simp add: storeConversation_ready put_conversation_def)

lemma import_conversations_ok:
  "isInitialized s \<Longrightarrow> \<forall>c\<in>set cs. conversationId c \<noteq> None \<Longrightarrow>
   \<exists>s1. import_conversations E n cs s = Some (Inr (), s1) \<and> isInitialized s1 \<and>
        messages_store s1 = messages_store s \<and> settings_store s1 = settings_store s \<and>
        encryptionKey s1 = encryptionKey s"
proof (induction cs arbitrary: s)
  case Nil
  then show ?case by simp
next
  case (Cons c cs)
  let ?s = "s\<lparr>tick := tick s + 3,
              conversations_store :=
                put_record conversationId (written_conversation E s c) (conversations_store s)\<rparr>"
  from Cons.prems have step: "storeConversation E n c s = Some (Inr (), ?s)"
    by (simp add: storeConversation_valid)
  have "isInitialized ?s" using Cons.prems by simp
  moreover have "\<forall>c\<in>set cs. conversationId c \<noteq> None" using Cons.prems by simp
  ultimately obtain s1 where "import_conversations E n cs ?s = Some (Inr (), s1)"
    "isInitialized s1" "messages_store s1 = messages_store ?s"
    "settings_store s1 = settings_store ?s" "encryptionKey s1 = encryptionKey ?s"
    using Cons.IH [of ?s] by blast
  with step show ?case by (simp add: await_def)
qed

lemma import_conversations_append:
  "import_conversations E n (xs @ ys) s =
   await (import_conversations E n xs s) (\<lambda>u. import_conversations E n ys)"
proof (induction xs arbitrary: s)
  case Nil
  show ?case by (simp add: await_def)
next
  case (Cons x xs)
  have "(\<lambda>u::unit. import_conversations E n (xs @ ys)) =
        (\<lambda>u s. await (import_conversations E n xs s) (\<lambda>u. import_conversations E n ys))"
    by (intro ext) (rule Cons.IH)
  then show ?case by (simp add: await_assoc)
qed

lemma import_messages_ok:
  "isInitialized s \<Longrightarrow>
   \<exists>s1. import_messages E n ms s = Some (Inr (), s1) \<and> isInitialized s1 \<and>
        conversations_store s1 = conversations_store s \<and>
        settings_store s1 = settings_store s \<and> encryptionKey s1 = encryptionKey s"
proof (induction ms arbitrary: s)
  case Nil
  then show ?case by simp
next
  case (Cons m ms)
  let ?s = "s\<lparr>tick := tick s + 3,
              messages_store := put_record messageId (written_message E s m) (messages_store s)\<rparr>"
  from Cons.prems have step: "storeMessage E n m s = Some (Inr (), ?s)"
    by (simp add: storeMessage_ready)
  have "isInitialized ?s" using Cons.prems by simp
  then obtain s1 where "import_messages E n ms ?s = Some (Inr (), s1)"
    "isInitialized s1" "conversations_store s1 = conversations_store ?s"
    "settings_store s1 = settings_store ?s" "encryptionKey s1 = encryptionKey ?s"
    using Cons.IH [of ?s] by blast
  with step show ?case by (simp add: await_def)
qed

subsection \<open>Listing the messages of a conversation\<close>

lemma getMessages_ready:
  "isInitialized s \<Longrightarrow>
   getMessagesByConversationId E n (Some c) s =
     Some (Inr (array_sort E (compare_createdAt E)
                  (map (decrypt_message E s) (messages_index c (messages_store s)))), s)"
  by (simp add: getMessagesByConversationId_def await_def ensureInitialized_ready)

lemma set_insert_sorted [simp]: "set (insert_sorted cmp x ys) = insert x (set ys)"
  by (induction ys) (auto split: option.splits)

lemma set_insertion_sort [simp]: "set (insertion_sort cmp xs) = set xs"
  by (induction xs) (auto simp: insertion_sort_def)

lemma length_insert_sorted [simp]: "length (insert_sorted cmp x ys) = Suc (length ys)"
  by (induction ys) (auto split: option.splits)

lemma length_insertion_sort [simp]: "length (insertion_sort cmp xs) = length xs"
  by (induction xs) (auto simp: insertion_sort_def)

lemma sorted_insert_sorted:
  assumes "sorted_wrt (createdAt_le E) ys" and "getTime E x \<noteq> None"
    and "\<forall>y\<in>set ys. getTime E y \<noteq> None"
  shows "sorted_wrt (createdAt_le E) (insert_sorted (compare_createdAt E) x ys)"
  using assms
proof (induction ys)
  case Nil
  then show ?case by simp
next
  case (Cons y ys)
  from Cons.prems obtain tx ty where t: "getTime E x = Some tx" "getTime E y = Some ty"
    by auto
  show ?case
  proof (cases "tx - ty > 0")
    case True
    with t Cons show ?thesis
      by (auto simp: compare_createdAt_def createdAt_le_def)
  next
    case False
    with t Cons.prems show ?thesis
      by (auto simp: compare_createdAt_def createdAt_le_def split: option.splits)
  qed
qed

lemma sorted_insertion_sort:
  "\<forall>x\<in>set xs. getTime E x \<noteq> None \<Longrightarrow>
   sorted_wrt (createdAt_le E) (insertion_sort (compare_createdAt E) xs)"
proof (induction xs)
  case Nil
  then show ?case by (simp add: insertion_sort_def)
next
  case (Cons x xs)
  then have "sorted_wrt (createdAt_le E) (insertion_sort (compare_createdAt E) xs)" by simp
  moreover have "\<forall>y\<in>set (insertion_sort (compare_createdAt E) xs). getTime E y \<noteq> None"
    using Cons.prems by simp
  ultimately have "sorted_wrt (createdAt_le E)
      (insert_sorted (compare_createdAt E) x (insertion_sort (compare_createdAt E) xs))"
    using Cons.prems by (intro sorted_insert_sorted) simp_all
  then show ?case by (simp add: insertion_sort_def)
qed

lemma getTime_decrypt_message [simp]: "getTime E (decrypt_message E s m) = getTime E m"
  by (simp add: decrypt_message_def spread_message_def getTime_def
      split: option.splits sum.splits)



lemma demo_sort_orders_dates: "sort_orders_dates (demo_env opens)"
  by (simp add: sort_orders_dates_def demo_env_def)

text \<open>
  On an initialized store in which the \<open>createdAt\<close> of every message of the conversation
  is a date, with a conforming \<^verbatim>\<open>Array.prototype.sort\<close>, the listing returns the
  messages of the conversation, each as the decrypt step hands it out, ordered by creation
  time.
\<close>

lemma getMessagesByConversationId_sorted_on_initialized:
  assumes "isInitialized s" and "sort_orders_dates E"
    and "\<forall>m\<in>set (messages_store s). msg_conversationId m = Some cid \<longrightarrow> getTime E m \<noteq> None"
  shows "\<exists>ms. getMessagesByConversationId E n (Some cid) s = Some (Inr ms, s) \<and>
     sorted_wrt (createdAt_le E) ms \<and>
     set ms = decrypt_message E s ` {m \<in> set (messages_store s). msg_conversationId m = Some cid}"
proof -
  let ?xs = "map (decrypt_message E s) (messages_index cid (messages_store s))"
  have dates: "\<forall>x\<in>set ?xs. getTime E x \<noteq> None"
    using assms(3) by (auto simp: set_messages_index)
  with assms(2) have eq: "array_sort E (compare_createdAt E) ?xs =
      insertion_sort (compare_createdAt E) ?xs"
    by (simp add: sort_orders_dates_def)
  from dates have "sorted_wrt (createdAt_le E) (insertion_sort (compare_createdAt E) ?xs)"
    by (rule sorted_insertion_sort)
  moreover have "set (insertion_sort (compare_createdAt E) ?xs) = decrypt_message E s `
      {m \<in> set (messages_store s). msg_conversationId m = Some cid}"
    by (simp add: set_messages_index)
  ultimately show ?thesis using assms(1) eq by (simp add: getMessages_ready)
qed

text \<open>
  Scenario A, run from an empty initialized store: a conversation c1, then m1 created at
  100 and m2 created at 200 are stored; the listing returns m1, m2.
\<close>

lemma scenario_A:
  "(case await (storeConversation (demo_env (\<lambda>t. True)) 0
                  ((demo_conversation ''c1'' [])\<lparr>title := Some ''Hello''\<rparr>) (demo_ready [] []))
           (\<lambda>u s1. await (storeMessage (demo_env (\<lambda>t. True)) 0
                             (demo_message ''m1'' ''c1'' ''hi'' ''100'') s1)
           (\<lambda>u s2. await (storeMessage (demo_env (\<lambda>t. True)) 0
                             (demo_message ''m2'' ''c1'' ''there'' ''200'') s2)
           (\<lambda>u s3. getMessagesByConversationId (demo_env (\<lambda>t. True)) 0 (Some ''c1'') s3))) of
      Some (Inr ms, s') \<Rightarrow>
        ms = [demo_message ''m1'' ''c1'' ''hi'' ''100'', demo_message ''m2'' ''c1'' ''there'' ''200'']
    | _ \<Rightarrow> False)"
  by code_simp

text \<open>
  Claim C9 (\<^verbatim>\<open>getMessagesByConversationId\<close> returns the messages of the conversation
  in ascending order of \<open>createdAt\<close>; Scenario A). The method starts with
  \<^verbatim>\<open>await this.ensureInitialized()\<close>, and on the object that \<^verbatim>\<open>new ClientStorage()\<close>
  builds the initialization waits for itself (\<open>initializeStorage_pending\<close>): with every
  \<^verbatim>\<open>openDB\<close> succeeding the listing is still pending after any number of nested
  initializations and returns no array at all. Run on a database that holds the
  conversation c1 with m1 created at 100 and m2 created at 200.
\<close>

theorem getMessagesByConversationId_never_returns:
  "\<forall>n. getMessagesByConversationId (demo_env (\<lambda>t. True)) n (Some ''c1'')
         (demo_constructed [demo_conversation ''c1'' ''1'']
            [demo_message ''m1'' ''c1'' ''hi'' ''100'',
             demo_message ''m2'' ''c1'' ''there'' ''200'']) = None"
proof
  fix n
  have "\<not> isInitialized (demo_constructed [demo_conversation ''c1'' ''1'']
            [demo_message ''m1'' ''c1'' ''hi'' ''100'',
             demo_message ''m2'' ''c1'' ''there'' ''200''])"
    by (simp add: demo_constructed_def)
  with demo_env_opens show "getMessagesByConversationId (demo_env (\<lambda>t. True)) n (Some ''c1'')
         (demo_constructed [demo_conversation ''c1'' ''1'']
            [demo_message ''m1'' ''c1'' ''hi'' ''100'',
             demo_message ''m2'' ''c1'' ''there'' ''200'']) = None"
    by (simp add: getMessagesByConversationId_def ensureInitialized_pending await_pending)
qed

subsection \<open>Initialization and the encryption flag\<close>

lemma ensureInitialized_inv:
  assumes IH: "\<And>s r s'. initializeStorage E n s = Some (r, s') \<Longrightarrow> key_implies_flag s \<Longrightarrow> key_implies_flag s'"
    and "ensureInitialized E n s = Some (r, s')" and "key_implies_flag s"
  shows "key_implies_flag s'"
  using assms(2,3) IH [of s r s']
  by (auto simp: ensureInitialized.simps split: if_splits)

lemma getSettings_inv:
  assumes IH: "\<And>s r s'. initializeStorage E n s = Some (r, s') \<Longrightarrow> key_implies_flag s \<Longrightarrow> key_implies_flag s'"
    and run: "getSettings E n s = Some (r, s')" and inv: "key_implies_flag s"
  shows "key_implies_flag s' \<and> (\<forall>st. r = Inr st \<longrightarrow> st = stored_settings s' \<and> isInitialized s')"
proof -
  from run obtain r0 where e: "ensureInitialized E n s = Some (r0, s')"
    and r: "r = (case r0 of Inl e \<Rightarrow> Inl e | Inr u \<Rightarrow> Inr (stored_settings s'))"
    by (auto simp: getSettings.simps split: option.splits sum.splits prod.splits)
  from ensureInitialized_inv [OF IH e inv] have "key_implies_flag s'" by simp
  moreover have "\<forall>st. r = Inr st \<longrightarrow> st = stored_settings s' \<and> isInitialized s'"
    using r e ensureInitialized_Inr [of E n s _ s'] by (cases r0) auto
  ultimately show ?thesis by simp
qed

lemma initializeEncryption_inv:
  assumes IH: "\<And>s r s'. initializeStorage E n s = Some (r, s') \<Longrightarrow> key_implies_flag s \<Longrightarrow> key_implies_flag s'"
    and run: "initializeEncryption E n s = Some (r, s')" and inv: "key_implies_flag s"
  shows "key_implies_flag s'"
proof -
  from run obtain r1 s1 where g: "getSettings E n s = Some (r1, s1)"
    by (auto simp: initializeEncryption.simps split: option.splits)
  from getSettings_inv [OF IH g inv] have inv1: "key_implies_flag s1"
    and st: "\<forall>st. r1 = Inr st \<longrightarrow> st = stored_settings s1 \<and> isInitialized s1" by simp_all
  show ?thesis
  proof (cases r1)
    case (Inl e)
    with run g show ?thesis
      by (auto simp: initializeEncryption.simps key_implies_flag_def)
  next
    case (Inr settings)
    with st have settings: "settings = stored_settings s1" and ready: "isInitialized s1" by simp_all
    from run g Inr ready inv1 settings show ?thesis
      by (auto simp: initializeEncryption.simps updateSettings_ready Let_def
          key_implies_flag_def stored_settings_def default_settings_def
          split: if_splits option.splits)
  qed
qed

lemma initializeStorage_inv:
  "initializeStorage E n s = Some (r, s') \<Longrightarrow> key_implies_flag s \<Longrightarrow> key_implies_flag s'"
proof (induction n arbitrary: s r s')
  case 0
  then show ?case by (simp add: initializeStorage.simps)
next
  case (Suc n)
  show ?case
  proof (cases "openDB_ok E (tick s)")
    case False
    with Suc.prems show ?thesis
      by (auto simp: initializeStorage.simps key_implies_flag_def)
  next
    case True
    with Suc.prems(1) obtain r1 s1 where
      e: "initializeEncryption E n (s\<lparr>tick := tick s + 1\<rparr>) = Some (r1, s1)"
      and s': "s' = s1 \<or> s' = s1\<lparr>isInitialized := True\<rparr>"
      by (auto simp: initializeStorage.simps split: option.splits sum.splits prod.splits)
    have "key_implies_flag (s\<lparr>tick := tick s + 1\<rparr>)"
      using Suc.prems(2) by (simp add: key_implies_flag_def)
    from initializeEncryption_inv [OF Suc.IH e this] have "key_implies_flag s1" by simp
    with s' show ?thesis by (auto simp: key_implies_flag_def)
  qed
qed

text \<open>
  Claim C10 (whenever initialization completes successfully the persisted settings have
  \<open>encryptionEnabled\<close> true) does not hold. On a new database (no settings record), with
  the first \<^verbatim>\<open>openDB\<close> succeeding and the nested one failing, the \<^verbatim>\<open>catch\<close> of
  \<^verbatim>\<open>initializeEncryption\<close> ("Continue without encryption if it fails") swallows the
  error: initialization completes, \<open>isInitialized\<close> is true, there is no key and no
  settings record, so \<^verbatim>\<open>getSettings\<close> reports \<open>encryptionEnabled\<close> false.
\<close>

theorem initializeStorage_without_encryption_counterexample:
  "(case initializeStorage (demo_env (\<lambda>t. t = 0)) 2 (demo_new None) of
      Some (Inr u, s') \<Rightarrow>
        isInitialized s' \<and> encryptionKey s' = None \<and> settings_store s' = None \<and>
        \<not> encryptionEnabled (stored_settings s')
    | _ \<Rightarrow> False)"
  by code_simp

text \<open>
  Claim C10 as amended: whenever an initialization started without a key completes
  successfully and leaves a key in the object (\<^verbatim>\<open>initializeEncryption\<close> did not end in
  its \<^verbatim>\<open>catch\<close>), the persisted settings record exists and has \<open>encryptionEnabled\<close> true.
\<close>

theorem initializeStorage_key_implies_flag:
  assumes "initializeStorage E n s = Some (Inr u, s')" and "encryptionKey s = None"
    and "encryptionKey s' \<noteq> None"
  shows "isInitialized s' \<and> (\<exists>v. settings_store s' = Some v \<and> encryptionEnabled v)"
proof -
  have "key_implies_flag s" using assms(2) by (simp add: key_implies_flag_def)
  from initializeStorage_inv [OF assms(1) this] assms(3)
  have "\<exists>v. settings_store s' = Some v \<and> encryptionEnabled v"
    by (auto simp: key_implies_flag_def split: option.splits)
  with initializeStorage_Inr [OF assms(1)] show ?thesis by simp
qed

theorem initializeStorage_key_implies_flag_witness:
  "initializeStorage (demo_env (\<lambda>t. t < 2)) 3 (demo_new None) =
     Some (Inr (),
       \<lparr>conversations_store = [], messages_store = [],
        settings_store = Some \<lparr>encryptionEnabled = True, backupEnabled = True,
          masterKeyHash = Some ''#aaaa'', lastBackup = None,
          maxStorageSize = Some 104857600\<rparr>,
        master_key_item = None, encryptionKey = Some ''aaaa'',
        isInitialized = True, tick = 4\<rparr>) \<and>
   encryptionKey (demo_new None) = None \<and>
   (\<exists>v. settings_store
          \<lparr>conversations_store = [], messages_store = [],
           settings_store = Some \<lparr>encryptionEnabled = True, backupEnabled = True,
             masterKeyHash = Some ''#aaaa'', lastBackup = None,
             maxStorageSize = Some 104857600\<rparr>,
           master_key_item = None, encryptionKey = Some ''aaaa'',
           isInitialized = True, tick = 4\<rparr> = Some v \<and> encryptionEnabled v)"
proof -
  let ?s' = "\<lparr>conversations_store = [], messages_store = [],
        settings_store = Some \<lparr>encryptionEnabled = True, backupEnabled = True,
          masterKeyHash = Some ''#aaaa'', lastBackup = None,
          maxStorageSize = Some 104857600\<rparr>,
        master_key_item = None, encryptionKey = Some ''aaaa'',
        isInitialized = True, tick = 4\<rparr>"
  have run: "initializeStorage (demo_env (\<lambda>t. t < 2)) 3 (demo_new None) = Some (Inr (), ?s')"
    by code_simp
  have k0: "encryptionKey (demo_new None) = None" by (simp add: demo_new_def)
  have k1: "encryptionKey ?s' \<noteq> None" by simp
  from initializeStorage_key_implies_flag [OF run k0 k1] run k0 show ?thesis by blast
qed

subsection \<open>encrypt and decrypt: round trip, tampering\<close>

lemma decrypt_truthy:
  "encryptionKey s = Some k \<Longrightarrow> k \<noteq> [] \<Longrightarrow>
   decrypt E s b =
     (case aes_decrypt E (data b) k (iv b) of
        None \<Rightarrow> Inl MalformedUtf8
      | Some dataString \<Rightarrow>
          (case json_parse E dataString of
             None \<Rightarrow> Inl JsonSyntaxError
           | Some d \<Rightarrow> Inr d))"
  by (simp add: decrypt_def)

lemma encrypt_Inr:
  assumes "encrypt E s X = Inr b"
  shows "\<exists>k. encryptionKey s = Some k \<and> k \<noteq> [] \<and>
     b = \<lparr>data = aes_encrypt E (json_stringify E X) k (random_hex E (tick s)),
          iv = random_hex E (tick s), timestamp = date_now E (tick s)\<rparr>"
  using assms
  by (cases "encryptionKey s") (auto simp: encrypt_def Let_def split: if_splits)

text \<open>
  Claim C2 (round trip, and an IntegrityError from \<^verbatim>\<open>decrypt\<close> for every blob with a
  flipped ciphertext byte) does not hold in its second half: \<^verbatim>\<open>EncryptedData\<close> has no
  checksum and \<^verbatim>\<open>decrypt\<close> compares nothing. Whether a changed ciphertext is noticed is
  left to the cipher and to \<^verbatim>\<open>JSON.parse\<close>. With the stand-in cipher of \<open>demo_env\<close>,
  which does round-trip, the blob written for the title "secret", with one ciphertext
  byte changed, decrypts without any error to the title "secxet".
\<close>

theorem decrypt_tampered_counterexample:
  "encrypt (demo_env (\<lambda>t. True)) (demo_keyed (demo_ready [] []))
     \<lparr>s_promptPrefix = None, s_title = Some ''secret'', s_text = None, s_content = None\<rparr>
     = Inr \<lparr>data = ''ktercesT'', iv = ''a'', timestamp = 1000\<rparr> \<and>
   decrypt (demo_env (\<lambda>t. True)) (demo_keyed (demo_ready [] []))
     \<lparr>data = ''ktexcesT'', iv = ''a'', timestamp = 1000\<rparr>
     = Inr \<lparr>s_promptPrefix = None, s_title = Some ''secxet'', s_text = None, s_content = None\<rparr>"
  by code_simp

text \<open>
  Claim C2 as amended. Round trip: when \<^verbatim>\<open>encrypt\<close> returns a blob for \<open>X\<close>, and the
  cipher and JSON round-trip on the text of \<open>X\<close>, \<^verbatim>\<open>decrypt\<close> under the same key returns
  \<open>X\<close>. No integrity check: for any blob, whenever the cipher yields a text and that text
  parses, \<^verbatim>\<open>decrypt\<close> returns the parsed object; and when \<^verbatim>\<open>decrypt\<close> throws, the
  error is the missing key, the malformed UTF-8 of CryptoJS or the SyntaxError of
  \<^verbatim>\<open>JSON.parse\<close>.
\<close>

theorem decrypt_encrypt_roundtrip:
  assumes enc: "encrypt E s X = Inr b"
    and key: "encryptionKey s' = encryptionKey s"
    and cipher: "\<forall>k. encryptionKey s = Some k \<longrightarrow>
        aes_decrypt E (aes_encrypt E (json_stringify E X) k (random_hex E (tick s))) k
          (random_hex E (tick s)) = Some (json_stringify E X)"
    and json: "json_parse E (json_stringify E X) = Some X"
  shows "decrypt E s' b = Inr X \<and>
     (\<forall>b' k str d. encryptionKey s' = Some k \<and> k \<noteq> [] \<and>
        aes_decrypt E (data b') k (iv b') = Some str \<and> json_parse E str = Some d \<longrightarrow>
        decrypt E s' b' = Inr d) \<and>
     (\<forall>b' e. decrypt E s' b' = Inl e \<longrightarrow>
        e = EncryptionKeyNotAvailable \<or> e = MalformedUtf8 \<or> e = JsonSyntaxError)"
proof (intro conjI allI impI)
  from encrypt_Inr [OF enc] obtain k where k: "encryptionKey s = Some k" "k \<noteq> []"
    and b: "b = \<lparr>data = aes_encrypt E (json_stringify E X) k (random_hex E (tick s)),
          iv = random_hex E (tick s), timestamp = date_now E (tick s)\<rparr>"
    by blast
  from k key have k': "encryptionKey s' = Some k" by simp
  from cipher k(1) have "aes_decrypt E (data b) k (iv b) = Some (json_stringify E X)"
    by (simp add: b)
  with json show "decrypt E s' b = Inr X"
    by (simp add: decrypt_truthy [OF k' k(2)])
next
  fix b' :: encrypted_data and k str d
  assume "encryptionKey s' = Some k \<and> k \<noteq> [] \<and>
        aes_decrypt E (data b') k (iv b') = Some str \<and> json_parse E str = Some d"
  then show "decrypt E s' b' = Inr d"
    by (simp add: decrypt_truthy)
next
  fix b' :: encrypted_data and e
  assume "decrypt E s' b' = Inl e"
  then show "e = EncryptionKeyNotAvailable \<or> e = MalformedUtf8 \<or> e = JsonSyntaxError"
    by (auto simp: decrypt_def split: if_splits option.splits)
qed

theorem decrypt_encrypt_roundtrip_witness:
  "encrypt (demo_env (\<lambda>t. True)) (demo_keyed (demo_ready [] []))
     \<lparr>s_promptPrefix = None, s_title = Some ''secret'', s_text = None, s_content = None\<rparr>
     = Inr \<lparr>data = ''ktercesT'', iv = ''a'', timestamp = 1000\<rparr> \<and>
   decrypt (demo_env (\<lambda>t. True)) (demo_keyed (demo_ready [] []))
     \<lparr>data = ''ktercesT'', iv = ''a'', timestamp = 1000\<rparr>
     = Inr \<lparr>s_promptPrefix = None, s_title = Some ''secret'', s_text = None, s_content = None\<rparr>"
proof -
  let ?E = "demo_env (\<lambda>t. True)"
  let ?s = "demo_keyed (demo_ready [] [])"
  let ?X = "\<lparr>s_promptPrefix = None, s_title = Some ''secret'', s_text = None, s_content = None\<rparr>"
  let ?b = "\<lparr>data = ''ktercesT'', iv = ''a'', timestamp = 1000\<rparr>"
  have enc: "encrypt ?E ?s ?X = Inr ?b" by code_simp
  have key: "encryptionKey ?s = encryptionKey ?s" by simp
  have "aes_decrypt ?E (aes_encrypt ?E (json_stringify ?E ?X) ''k'' (random_hex ?E (tick ?s))) ''k''
          (random_hex ?E (tick ?s)) = Some (json_stringify ?E ?X)"
    by code_simp
  then have cipher: "\<forall>k. encryptionKey ?s = Some k \<longrightarrow>
        aes_decrypt ?E (aes_encrypt ?E (json_stringify ?E ?X) k (random_hex ?E (tick ?s))) k
          (random_hex ?E (tick ?s)) = Some (json_stringify ?E ?X)"
    by (simp add: demo_keyed_def)
  have json: "json_parse ?E (json_stringify ?E ?X) = Some ?X" by code_simp
  from decrypt_encrypt_roundtrip [OF enc key cipher json] enc show ?thesis by blast
qed

subsection \<open>Sensitive fields at rest\<close>

lemma get_record_put_record:
  "get_record key (key r) (put_record key r store) = Some r"
proof (cases "key r \<in> set (map key store)")
  case True
  then have "find (\<lambda>x. key x = key r) (map (\<lambda>x. if key x = key r then r else x) store) = Some r"
    by (induction store) auto
  with True show ?thesis by (simp add: get_record_def put_record_def)
next
  case False
  then have "find (\<lambda>x. key x = key r) (store @ [r]) = Some r"
    by (induction store) auto
  with False show ?thesis by (simp add: get_record_def put_record_def)
qed

lemma written_conversation_encrypted:
  "encryptionEnabled (stored_settings s) \<Longrightarrow> encryptionKey s = Some k \<Longrightarrow> k \<noteq> [] \<Longrightarrow>
   written_conversation E s c =
     c\<lparr>lastAccessed := Some (date_now E (tick s)),
       syncStatus := Some Local,
       updatedAt := (if truthy (updatedAt c) then updatedAt c
                     else Some (toISOString E (date_now E (tick s + 1)))),
       encryptedData :=
         Some \<lparr>data = aes_encrypt E
                        (json_stringify E \<lparr>s_promptPrefix = promptPrefix c, s_title = title c,
                           s_text = None, s_content = None\<rparr>)
                        k (random_hex E (tick s + 2)),
               iv = random_hex E (tick s + 2), timestamp = date_now E (tick s + 2)\<rparr>,
       encryptedAt := Some (date_now E (tick s)),
       promptPrefix := None, title := None\<rparr>"
  by (simp add: written_conversation_def encrypt_truthy Let_def)


lemma getConversation_ready:
  assumes "isInitialized s" and "get_record conversationId (Some cid) (conversations_store s) = Some r"
  shows "getConversation E n cid s =
     Some (Inr (Some (decrypt_conversation E
                        (s\<lparr>tick := tick s + 1,
                           conversations_store :=
                             put_record conversationId
                               (r\<lparr>lastAccessed := Some (date_now E (tick s))\<rparr>)
                               (conversations_store s)\<rparr>)
                        (r\<lparr>lastAccessed := Some (date_now E (tick s))\<rparr>))),
           s\<lparr>tick := tick s + 1,
             conversations_store :=
               put_record conversationId (r\<lparr>lastAccessed := Some (date_now E (tick s))\<rparr>)
                 (conversations_store s)\<rparr>)"
proof -
  from assms(2) have "conversationId r = Some cid"
    by (auto simp: get_record_def dest: find_Some_iff [THEN iffD1])
  with assms show ?thesis
    by (simp add: getConversation_def await_def ensureInitialized_ready put_conversation_def
        Let_def)
qed

text \<open>
  Claim C7 (with the encryption flag on, the stored record holds no plaintext title) does
  not hold for the flag alone: \<^verbatim>\<open>storeConversation\<close> encrypts only
  \<^verbatim>\<open>if (settings.encryptionEnabled && this.encryptionKey)\<close>. A new ClientStorage object
  on a database whose settings say \<open>encryptionEnabled\<close>, with the nested \<^verbatim>\<open>openDB\<close>
  failing, completes its initialization without a key; \<^verbatim>\<open>storeConversation\<close> then
  writes the title "secret" in plaintext and no blob, while the flag is on.
\<close>

theorem storeConversation_plaintext_counterexample:
  "(case storeConversation (demo_env (\<lambda>t. t = 0)) 2
           ((demo_conversation ''c1'' [])\<lparr>title := Some ''secret''\<rparr>)
           (demo_new (Some (default_settings\<lparr>encryptionEnabled := True\<rparr>))) of
      Some (Inr u, s1) \<Rightarrow>
        encryptionEnabled (stored_settings s1) \<and>
        map title (conversations_store s1) = [Some ''secret''] \<and>
        map encryptedData (conversations_store s1) = [None]
    | _ \<Rightarrow> False)"
  by code_simp

text \<open>
  Claim C7 as amended: on an initialized store with the encryption flag on and a key in
  the object, \<^verbatim>\<open>storeConversation\<close> writes a record without \<open>title\<close> and
  \<open>promptPrefix\<close>, which are held only in the blob \<open>encryptedData\<close>, and
  \<^verbatim>\<open>getConversation\<close> then returns the original title and prompt prefix; likewise
  \<^verbatim>\<open>storeMessage\<close> writes a record without \<open>text\<close> and \<open>content\<close>, and the decrypt step
  of the listing gives them back. The reading back supposes that the cipher and JSON
  round-trip on the text of the sensitive fields.
\<close>

theorem storeConversation_encrypts_sensitive_fields:
  assumes ready: "isInitialized s" and flag: "encryptionEnabled (stored_settings s)"
    and key: "encryptionKey s = Some k" "k \<noteq> []"
  shows
    "(conversationId c = Some cid \<and>
      aes_decrypt E
        (aes_encrypt E
           (json_stringify E \<lparr>s_promptPrefix = promptPrefix c, s_title = title c,
              s_text = None, s_content = None\<rparr>) k (random_hex E (tick s + 2)))
        k (random_hex E (tick s + 2)) =
        Some (json_stringify E \<lparr>s_promptPrefix = promptPrefix c, s_title = title c,
                s_text = None, s_content = None\<rparr>) \<and>
      json_parse E (json_stringify E \<lparr>s_promptPrefix = promptPrefix c, s_title = title c,
                      s_text = None, s_content = None\<rparr>) =
        Some \<lparr>s_promptPrefix = promptPrefix c, s_title = title c,
               s_text = None, s_content = None\<rparr> \<longrightarrow>
      (\<exists>s1 r b. storeConversation E n c s = Some (Inr (), s1) \<and>
         get_record conversationId (Some cid) (conversations_store s1) = Some r \<and>
         title r = None \<and> promptPrefix r = None \<and> encryptedData r = Some b \<and>
         data b = aes_encrypt E
                    (json_stringify E \<lparr>s_promptPrefix = promptPrefix c, s_title = title c,
                       s_text = None, s_content = None\<rparr>) k (iv b) \<and>
         (\<exists>s2 c'. getConversation E n' cid s1 = Some (Inr (Some c'), s2) \<and>
            title c' = title c \<and> promptPrefix c' = promptPrefix c \<and>
            encryptedData c' = None))) \<and>
     (aes_decrypt E
        (aes_encrypt E
           (json_stringify E \<lparr>s_promptPrefix = None, s_title = None,
              s_text = msg_text m, s_content = content m\<rparr>) k (random_hex E (tick s + 1)))
        k (random_hex E (tick s + 1)) =
        Some (json_stringify E \<lparr>s_promptPrefix = None, s_title = None,
                s_text = msg_text m, s_content = content m\<rparr>) \<and>
      json_parse E (json_stringify E \<lparr>s_promptPrefix = None, s_title = None,
                      s_text = msg_text m, s_content = content m\<rparr>) =
        Some \<lparr>s_promptPrefix = None, s_title = None,
               s_text = msg_text m, s_content = content m\<rparr> \<longrightarrow>
      (\<exists>s1 r b. storeMessage E n m s = Some (Inr (), s1) \<and>
         get_record messageId (messageId m) (messages_store s1) = Some r \<and>
         msg_text r = None \<and> content r = None \<and> msg_encryptedData r = Some b \<and>
         msg_text (decrypt_message E s1 r) = msg_text m \<and>
         content (decrypt_message E s1 r) = content m))"
proof (intro conjI impI)
  let ?X = "\<lparr>s_promptPrefix = promptPrefix c, s_title = title c,
              s_text = None, s_content = None\<rparr>"
  let ?b = "\<lparr>data = aes_encrypt E (json_stringify E ?X) k (random_hex E (tick s + 2)),
            iv = random_hex E (tick s + 2), timestamp = date_now E (tick s + 2)\<rparr>"
  let ?r = "written_conversation E s c"
  let ?s1 = "s\<lparr>tick := tick s + 3,
              conversations_store := put_record conversationId ?r (conversations_store s)\<rparr>"
  assume h: "conversationId c = Some cid \<and>
      aes_decrypt E (aes_encrypt E (json_stringify E ?X) k (random_hex E (tick s + 2)))
        k (random_hex E (tick s + 2)) = Some (json_stringify E ?X) \<and>
      json_parse E (json_stringify E ?X) = Some ?X"
  have r: "?r = c\<lparr>lastAccessed := Some (date_now E (tick s)),
       syncStatus := Some Local,
       updatedAt := (if truthy (updatedAt c) then updatedAt c
                     else Some (toISOString E (date_now E (tick s + 1)))),
       encryptedData := Some ?b,
       encryptedAt := Some (date_now E (tick s)),
       promptPrefix := None, title := None\<rparr>"
    using flag key by (rule written_conversation_encrypted)
  have store: "storeConversation E n c s = Some (Inr (), ?s1)"
    using ready h by (simp add: storeConversation_valid)
  have "conversationId ?r = Some cid" using h by simp
  then have got: "get_record conversationId (Some cid) (conversations_store ?s1) = Some ?r"
    using get_record_put_record [of conversationId ?r "conversations_store s"] by simp
  have ready1: "isInitialized ?s1" using ready by simp
  let ?stored = "?r\<lparr>lastAccessed := Some (date_now E (tick ?s1))\<rparr>"
  let ?s2 = "?s1\<lparr>tick := tick ?s1 + 1,
               conversations_store :=
                 put_record conversationId ?stored (conversations_store ?s1)\<rparr>"
  have dec: "decrypt E ?s2 ?b = Inr ?X"
    using h key by (simp add: decrypt_truthy [where k = k])
  have "decrypt_conversation E ?s2 ?stored = spread_conversation ?stored ?X"
    using dec key by (simp add: decrypt_conversation_def r)
  then have view: "title (decrypt_conversation E ?s2 ?stored) = title c \<and>
      promptPrefix (decrypt_conversation E ?s2 ?stored) = promptPrefix c \<and>
      encryptedData (decrypt_conversation E ?s2 ?stored) = None"
    by (simp add: spread_conversation_def r split: option.splits)
  from getConversation_ready [OF ready1 got, of E n'] view
  have "\<exists>s2 c'. getConversation E n' cid ?s1 = Some (Inr (Some c'), s2) \<and>
            title c' = title c \<and> promptPrefix c' = promptPrefix c \<and> encryptedData c' = None"
    by simp
  moreover have "title ?r = None \<and> promptPrefix ?r = None \<and> encryptedData ?r = Some ?b \<and>
      data ?b = aes_encrypt E (json_stringify E ?X) k (iv ?b)"
    by (simp add: r)
  ultimately show "\<exists>s1 r b. storeConversation E n c s = Some (Inr (), s1) \<and>
         get_record conversationId (Some cid) (conversations_store s1) = Some r \<and>
         title r = None \<and> promptPrefix r = None \<and> encryptedData r = Some b \<and>
         data b = aes_encrypt E (json_stringify E ?X) k (iv b) \<and>
         (\<exists>s2 c'. getConversation E n' cid s1 = Some (Inr (Some c'), s2) \<and>
            title c' = title c \<and> promptPrefix c' = promptPrefix c \<and>
            encryptedData c' = None)"
    using store got by blast
next
  let ?X = "\<lparr>s_promptPrefix = None, s_title = None,
              s_text = msg_text m, s_content = content m\<rparr>"
  let ?b = "\<lparr>data = aes_encrypt E (json_stringify E ?X) k (random_hex E (tick s + 1)),
            iv = random_hex E (tick s + 1), timestamp = date_now E (tick s + 1)\<rparr>"
  let ?r = "written_message E s m"
  let ?s1 = "s\<lparr>tick := tick s + 3,
              messages_store := put_record messageId ?r (messages_store s)\<rparr>"
  assume h: "aes_decrypt E (aes_encrypt E (json_stringify E ?X) k (random_hex E (tick s + 1)))
        k (random_hex E (tick s + 1)) = Some (json_stringify E ?X) \<and>
      json_parse E (json_stringify E ?X) = Some ?X"
  have r: "?r = m\<lparr>msg_syncStatus := Some Local,
       msg_createdAt := (if truthy (msg_createdAt m) then msg_createdAt m
                         else Some (toISOString E (date_now E (tick s)))),
       msg_encryptedData := Some ?b,
       msg_encryptedAt := Some (date_now E (tick s + 2)),
       msg_text := None, content := None\<rparr>"
    using flag key by (rule written_message_encrypted)
  have store: "storeMessage E n m s = Some (Inr (), ?s1)"
    using ready by (rule storeMessage_ready)
  have got: "get_record messageId (messageId m) (messages_store ?s1) = Some ?r"
    using get_record_put_record [of messageId ?r "messages_store s"] by simp
  have dec: "decrypt E ?s1 ?b = Inr ?X"
    using h key by (simp add: decrypt_truthy [where k = k])
  have "decrypt_message E ?s1 ?r = spread_message ?r ?X"
    using dec key by (simp add: decrypt_message_def r)
  then have view: "msg_text (decrypt_message E ?s1 ?r) = msg_text m \<and>
      content (decrypt_message E ?s1 ?r) = content m"
    by (simp add: spread_message_def r split: option.splits)
  have "msg_text ?r = None \<and> content ?r = None \<and> msg_encryptedData ?r = Some ?b"
    by (simp add: r)
  with store got view show "\<exists>s1 r b. storeMessage E n m s = Some (Inr (), s1) \<and>
         get_record messageId (messageId m) (messages_store s1) = Some r \<and>
         msg_text r = None \<and> content r = None \<and> msg_encryptedData r = Some b \<and>
         msg_text (decrypt_message E s1 r) = msg_text m \<and>
         content (decrypt_message E s1 r) = content m"
    by blast
qed


theorem storeConversation_encrypts_sensitive_fields_witness:
  "(\<exists>s1 r b.
      storeConversation (demo_env (\<lambda>t. True)) 0
        ((demo_conversation ''c1'' ''1'')\<lparr>title := Some ''secret''\<rparr>)
        (demo_keyed (demo_ready [] [])) = Some (Inr (), s1) \<and>
      get_record conversationId (Some ''c1'') (conversations_store s1) = Some r \<and>
      title r = None \<and> promptPrefix r = None \<and> encryptedData r = Some b \<and>
      (\<exists>s2 c'. getConversation (demo_env (\<lambda>t. True)) 0 ''c1'' s1 = Some (Inr (Some c'), s2) \<and>
         title c' = Some ''secret'')) \<and>
   (\<exists>s1 r b.
      storeMessage (demo_env (\<lambda>t. True)) 0 (demo_message ''m1'' ''c1'' ''hi'' ''100'')
        (demo_keyed (demo_ready [] [])) = Some (Inr (), s1) \<and>
      get_record messageId ''m1'' (messages_store s1) = Some r \<and>
      msg_text r = None \<and> msg_encryptedData r = Some b \<and>
      msg_text (decrypt_message (demo_env (\<lambda>t. True)) s1 r) = Some ''hi'')"
proof -
  let ?E = "demo_env (\<lambda>t. True)"
  let ?s = "demo_keyed (demo_ready [] [])"
  let ?c = "(demo_conversation ''c1'' ''1'')\<lparr>title := Some ''secret''\<rparr>"
  let ?m = "demo_message ''m1'' ''c1'' ''hi'' ''100''"
  let ?X = "\<lparr>s_promptPrefix = promptPrefix ?c, s_title = title ?c,
              s_text = None, s_content = None\<rparr>"
  let ?Y = "\<lparr>s_promptPrefix = None, s_title = None,
              s_text = msg_text ?m, s_content = content ?m\<rparr>"
  have r: "isInitialized ?s" by (simp add: demo_keyed_def demo_ready_def)
  have fl: "encryptionEnabled (stored_settings ?s)"
    by (simp add: demo_keyed_def stored_settings_def)
  have k1: "encryptionKey ?s = Some ''k''" by (simp add: demo_keyed_def)
  have k2: "''k'' \<noteq> []" by simp
  note inst = storeConversation_encrypts_sensitive_fields
    [OF r fl k1 k2, where c = ?c and cid = "''c1''" and E = ?E and m = ?m and n = 0
      and n' = 0]
  have p1: "conversationId ?c = Some ''c1'' \<and>
      aes_decrypt ?E (aes_encrypt ?E (json_stringify ?E ?X) ''k'' (random_hex ?E (tick ?s + 2)))
        ''k'' (random_hex ?E (tick ?s + 2)) = Some (json_stringify ?E ?X) \<and>
      json_parse ?E (json_stringify ?E ?X) = Some ?X"
    by code_simp
  have p2: "aes_decrypt ?E (aes_encrypt ?E (json_stringify ?E ?Y) ''k'' (random_hex ?E (tick ?s + 1)))
        ''k'' (random_hex ?E (tick ?s + 1)) = Some (json_stringify ?E ?Y) \<and>
      json_parse ?E (json_stringify ?E ?Y) = Some ?Y"
    by code_simp
  have t: "title ?c = Some ''secret''" by simp
  have x: "msg_text ?m = Some ''hi''" "messageId ?m = ''m1''"
    by (simp_all add: demo_message_def)
  from inst [THEN conjunct1, THEN mp, OF p1] t
  have a: "\<exists>s1 r b.
      storeConversation ?E 0 ?c ?s = Some (Inr (), s1) \<and>
      get_record conversationId (Some ''c1'') (conversations_store s1) = Some r \<and>
      title r = None \<and> promptPrefix r = None \<and> encryptedData r = Some b \<and>
      (\<exists>s2 c'. getConversation ?E 0 ''c1'' s1 = Some (Inr (Some c'), s2) \<and>
         title c' = Some ''secret'')"
    by metis
  from inst [THEN conjunct2, THEN mp, OF p2] x
  have b: "\<exists>s1 r b.
      storeMessage ?E 0 ?m ?s = Some (Inr (), s1) \<and>
      get_record messageId ''m1'' (messages_store s1) = Some r \<and>
      msg_text r = None \<and> msg_encryptedData r = Some b \<and>
      msg_text (decrypt_message ?E s1 r) = Some ''hi''"
    by metis
  from a b show ?thesis by (rule conjI)
qed

subsection \<open>Import: stopping at the first failure\<close>

lemma get_record_put_record_other:
  "key r \<noteq> k \<Longrightarrow> get_record key k (put_record key r store) = get_record key k store"
proof -
  assume ne: "key r \<noteq> k"
  have "find (\<lambda>x. key x = k) (map (\<lambda>x. if key x = key r then r else x) store) =
        find (\<lambda>x. key x = k) store"
    using ne by (induction store) auto
  moreover have "find (\<lambda>x. key x = k) (store @ [r]) = find (\<lambda>x. key x = k) store"
    using ne by (induction store) auto
  ultimately show ?thesis by (simp add: get_record_def put_record_def)
qed

lemma keys_put_record:
  "key ` set (put_record key r store) = insert (key r) (key ` set store)"
  by (auto simp: put_record_def image_iff)

lemma write_conversations_frame [simp]:
  "isInitialized (write_conversations E cs s) = isInitialized s"
  "messages_store (write_conversations E cs s) = messages_store s"
  "settings_store (write_conversations E cs s) = settings_store s"
  "encryptionKey (write_conversations E cs s) = encryptionKey s"
  by (induction cs arbitrary: s) simp_all

lemma write_messages_frame [simp]:
  "isInitialized (write_messages E ms s) = isInitialized s"
  "conversations_store (write_messages E ms s) = conversations_store s"
  "settings_store (write_messages E ms s) = settings_store s"
  "encryptionKey (write_messages E ms s) = encryptionKey s"
  by (induction ms arbitrary: s) simp_all

lemma write_conversations_append:
  "write_conversations E (xs @ ys) s = write_conversations E ys (write_conversations E xs s)"
  by (induction xs arbitrary: s) simp_all

lemma keys_write_conversations:
  "conversationId ` set (conversations_store (write_conversations E cs s)) =
   conversationId ` set (conversations_store s) \<union> conversationId ` set cs"
  by (induction cs arbitrary: s) (auto simp: keys_put_record)

lemma keys_write_messages:
  "messageId ` set (messages_store (write_messages E ms s)) =
   messageId ` set (messages_store s) \<union> messageId ` set ms"
  by (induction ms arbitrary: s) (auto simp: keys_put_record)

lemma get_record_write_conversations_other:
  "\<forall>y\<in>set ys. conversationId y \<noteq> k \<Longrightarrow>
   get_record conversationId k (conversations_store (write_conversations E ys s)) =
   get_record conversationId k (conversations_store s)"
  by (induction ys arbitrary: s) (simp_all add: get_record_put_record_other)

lemma import_conversations_valid:
  "isInitialized s \<Longrightarrow> \<forall>c\<in>set cs. conversationId c \<noteq> None \<Longrightarrow>
   import_conversations E n cs s = Some (Inr (), write_conversations E cs s)"
  by (induction cs arbitrary: s) (simp_all add: storeConversation_valid await_def)

lemma import_messages_all:
  "isInitialized s \<Longrightarrow> import_messages E n ms s = Some (Inr (), write_messages E ms s)"
  by (induction ms arbitrary: s) (simp_all add: storeMessage_ready await_def)

text \<open>
  Claim C4 (\<^verbatim>\<open>importData\<close> continues past a failing record and returns the counts
  \<open>{imported, failed}\<close>) does not hold. A snapshot whose first conversation has no
  \<open>conversationId\<close> (the put throws a DataError), followed by a good conversation and a
  message: the call is rejected with that error and nothing has been imported.
\<close>

theorem importData_aborts_counterexample:
  "(case importData (demo_env (\<lambda>t. True)) 0
           \<lparr>snap_conversations =
              [(demo_conversation ''c1'' ''1'')\<lparr>conversationId := None\<rparr>,
               demo_conversation ''c2'' ''2''],
            snap_messages = [demo_message ''m1'' ''c2'' ''hi'' ''1''],
            snap_settings = None, exportDate = None\<rparr>
           (demo_ready [] []) of
      Some (Inl e, s') \<Rightarrow>
        e = DataError \<and> conversations_store s' = [] \<and> messages_store s' = []
    | _ \<Rightarrow> False)"
  by code_simp

text \<open>
  Claim C4 as amended: \<^verbatim>\<open>importData\<close> stores the conversations and then the messages
  of the snapshot in order and stops at the first record whose store fails, rejecting
  with that error. On an initialized store, with \<open>pre\<close> a list of conversations that
  have an id: the import of a snapshot with the conversations \<open>pre\<close> returns, with no
  value, and leaves the store in which \<^verbatim>\<open>storeConversation\<close> has put every conversation
  of \<open>pre\<close>, \<^verbatim>\<open>storeMessage\<close> every message, and the settings are those of the snapshot.
  When \<open>bad\<close> has no id, the import of \<open>pre\<close>, \<open>bad\<close>, \<open>post\<close> is rejected with the
  DataError and leaves the store in which the conversations of \<open>pre\<close> have been put and
  nothing else: the ids of the conversations store are the former ids and those of
  \<open>pre\<close>, under the id of a conversation of \<open>pre\<close> is the record \<^verbatim>\<open>storeConversation\<close>
  wrote for its last occurrence, and no message or settings have been written.
\<close>

theorem importData_stores_until_first_failure:
  assumes ready: "isInitialized s" and valid: "\<forall>c\<in>set pre. conversationId c \<noteq> None"
  shows
    "importData E n \<lparr>snap_conversations = pre, snap_messages = ms,
                     snap_settings = st, exportDate = d\<rparr> s =
       Some (Inr (),
         (case st of
            Some v \<Rightarrow> (write_messages E ms (write_conversations E pre s))
                        \<lparr>settings_store := Some v\<rparr>
          | None \<Rightarrow> write_messages E ms (write_conversations E pre s))) \<and>
     (conversationId bad = None \<longrightarrow>
        importData E n \<lparr>snap_conversations = pre @ bad # post, snap_messages = ms,
                        snap_settings = st, exportDate = d\<rparr> s =
          Some (Inl DataError,
            (write_conversations E pre s)
              \<lparr>tick := tick (write_conversations E pre s) + 3\<rparr>)) \<and>
     conversationId ` set (conversations_store (write_conversations E pre s)) =
       conversationId ` set (conversations_store s) \<union> conversationId ` set pre \<and>
     (\<forall>xs c ys. pre = xs @ c # ys \<and> (\<forall>y\<in>set ys. conversationId y \<noteq> conversationId c) \<longrightarrow>
        get_record conversationId (conversationId c)
          (conversations_store (write_conversations E pre s)) =
        Some (written_conversation E (write_conversations E xs s) c)) \<and>
     messages_store (write_conversations E pre s) = messages_store s \<and>
     settings_store (write_conversations E pre s) = settings_store s \<and>
     messageId ` set (messages_store (write_messages E ms (write_conversations E pre s))) =
       messageId ` set (messages_store s) \<union> messageId ` set ms"
proof (intro conjI allI impI)
  let ?s1 = "write_conversations E pre s"
  from ready valid have pre: "import_conversations E n pre s = Some (Inr (), ?s1)"
    by (rule import_conversations_valid)
  have ready1: "isInitialized ?s1" using ready by simp
  then have msgs: "import_messages E n ms ?s1 = Some (Inr (), write_messages E ms ?s1)"
    by (rule import_messages_all)
  show "importData E n \<lparr>snap_conversations = pre, snap_messages = ms,
                       snap_settings = st, exportDate = d\<rparr> s =
       Some (Inr (),
         (case st of
            Some v \<Rightarrow> (write_messages E ms ?s1)\<lparr>settings_store := Some v\<rparr>
          | None \<Rightarrow> write_messages E ms ?s1))"
    using ready pre msgs ready1
    by (cases st) (simp_all add: importData_def await_def ensureInitialized_ready
        updateSettings_ready)
  show "importData E n \<lparr>snap_conversations = pre @ bad # post, snap_messages = ms,
                        snap_settings = st, exportDate = d\<rparr> s =
          Some (Inl DataError, ?s1\<lparr>tick := tick ?s1 + 3\<rparr>)"
    if "conversationId bad = None"
    using ready pre ready1 that
    by (simp add: importData_def await_def ensureInitialized_ready
        import_conversations_append storeConversation_invalid)
  show "conversationId ` set (conversations_store ?s1) =
       conversationId ` set (conversations_store s) \<union> conversationId ` set pre"
    by (rule keys_write_conversations)
  show "messages_store ?s1 = messages_store s" by simp
  show "settings_store ?s1 = settings_store s" by simp
  show "messageId ` set (messages_store (write_messages E ms ?s1)) =
       messageId ` set (messages_store s) \<union> messageId ` set ms"
    by (simp add: keys_write_messages)
next
  fix xs c ys
  assume h: "pre = xs @ c # ys \<and> (\<forall>y\<in>set ys. conversationId y \<noteq> conversationId c)"
  let ?s0 = "write_conversations E xs s"
  let ?r = "written_conversation E ?s0 c"
  let ?s1 = "?s0\<lparr>tick := tick ?s0 + 3,
               conversations_store :=
                 put_record conversationId ?r (conversations_store ?s0)\<rparr>"
  from h have "write_conversations E pre s = write_conversations E ys ?s1"
    by (simp add: write_conversations_append)
  moreover have "get_record conversationId (conversationId c)
      (conversations_store (write_conversations E ys ?s1)) =
      get_record conversationId (conversationId c) (conversations_store ?s1)"
    using h by (intro get_record_write_conversations_other) simp
  moreover have "get_record conversationId (conversationId c) (conversations_store ?s1) =
      Some ?r"
    using get_record_put_record [of conversationId ?r "conversations_store ?s0"] by simp
  ultimately show "get_record conversationId (conversationId c)
          (conversations_store (write_conversations E pre s)) = Some ?r"
    by simp
qed

theorem importData_stores_until_first_failure_witness:
  "importData (demo_env (\<lambda>t. True)) 0
     \<lparr>snap_conversations = [demo_conversation ''c0'' ''0''],
      snap_messages = [demo_message ''m1'' ''c2'' ''hi'' ''1''],
      snap_settings = None, exportDate = None\<rparr> (demo_ready [] []) =
     Some (Inr (),
       \<lparr>conversations_store =
          [(demo_conversation ''c0'' ''0'')\<lparr>lastAccessed := Some 1000\<rparr>],
        messages_store = [demo_message ''m1'' ''c2'' ''hi'' ''1''],
        settings_store = None, master_key_item = None, encryptionKey = None,
        isInitialized = True, tick = 6\<rparr>) \<and>
   importData (demo_env (\<lambda>t. True)) 0
     \<lparr>snap_conversations =
        [demo_conversation ''c0'' ''0''] @
        (demo_conversation ''c1'' ''1'')\<lparr>conversationId := None\<rparr> #
        [demo_conversation ''c2'' ''2''],
      snap_messages = [demo_message ''m1'' ''c2'' ''hi'' ''1''],
      snap_settings = None, exportDate = None\<rparr> (demo_ready [] []) =
     Some (Inl DataError,
       \<lparr>conversations_store =
          [(demo_conversation ''c0'' ''0'')\<lparr>lastAccessed := Some 1000\<rparr>],
        messages_store = [], settings_store = None, master_key_item = None,
        encryptionKey = None, isInitialized = True, tick = 6\<rparr>)"
proof -
  let ?E = "demo_env (\<lambda>t. True)"
  let ?s = "demo_ready [] []"
  let ?pre = "[demo_conversation ''c0'' ''0'']"
  let ?bad = "(demo_conversation ''c1'' ''1'')\<lparr>conversationId := None\<rparr>"
  let ?ms = "[demo_message ''m1'' ''c2'' ''hi'' ''1'']"
  have r: "isInitialized ?s" by (simp add: demo_ready_def)
  have v: "\<forall>c\<in>set ?pre. conversationId c \<noteq> None"
    by (simp add: demo_conversation_def)
  have b: "conversationId ?bad = None" by simp
  note inst = importData_stores_until_first_failure
    [OF r v, where E = ?E and n = 0 and ms = ?ms and st = None and d = None
       and bad = ?bad and post = "[demo_conversation ''c2'' ''2'']"]
  have ok: "write_messages ?E ?ms (write_conversations ?E ?pre ?s) =
       \<lparr>conversations_store =
          [(demo_conversation ''c0'' ''0'')\<lparr>lastAccessed := Some 1000\<rparr>],
        messages_store = [demo_message ''m1'' ''c2'' ''hi'' ''1''],
        settings_store = None, master_key_item = None, encryptionKey = None,
        isInitialized = True, tick = 6\<rparr>"
    by code_simp
  have stop: "(write_conversations ?E ?pre ?s)
                \<lparr>tick := tick (write_conversations ?E ?pre ?s) + 3\<rparr> =
       \<lparr>conversations_store =
          [(demo_conversation ''c0'' ''0'')\<lparr>lastAccessed := Some 1000\<rparr>],
        messages_store = [], settings_store = None, master_key_item = None,
        encryptionKey = None, isInitialized = True, tick = 6\<rparr>"
    by code_simp
  from inst [THEN conjunct1] ok
  have one: "importData ?E 0
     \<lparr>snap_conversations = ?pre, snap_messages = ?ms,
      snap_settings = None, exportDate = None\<rparr> ?s =
     Some (Inr (),
       \<lparr>conversations_store =
          [(demo_conversation ''c0'' ''0'')\<lparr>lastAccessed := Some 1000\<rparr>],
        messages_store = [demo_message ''m1'' ''c2'' ''hi'' ''1''],
        settings_store = None, master_key_item = None, encryptionKey = None,
        isInitialized = True, tick = 6\<rparr>)"
    by simp
  from inst [THEN conjunct2, THEN conjunct1, THEN mp, OF b] stop
  have two: "importData ?E 0
     \<lparr>snap_conversations = ?pre @ ?bad # [demo_conversation ''c2'' ''2''],
      snap_messages = ?ms, snap_settings = None, exportDate = None\<rparr> ?s =
     Some (Inl DataError,
       \<lparr>conversations_store =
          [(demo_conversation ''c0'' ''0'')\<lparr>lastAccessed := Some 1000\<rparr>],
        messages_store = [], settings_store = None, master_key_item = None,
        encryptionKey = None, isInitialized = True, tick = 6\<rparr>)"
    by simp
  from one two show ?thesis by (rule conjI)
qed

subsection \<open>Import of an export\<close>



lemma decrypt_key_cong:
  "encryptionKey s' = encryptionKey s \<Longrightarrow> decrypt E s' b = decrypt E s b"
  by (simp add: decrypt_def)

lemma decrypt_conversation_key_cong:
  "encryptionKey s' = encryptionKey s \<Longrightarrow>
   decrypt_conversation E s' c = decrypt_conversation E s c"
  by (auto simp: decrypt_conversation_def decrypt_key_cong [of s' s] split: option.splits)

lemma decrypt_message_key_cong:
  "encryptionKey s' = encryptionKey s \<Longrightarrow>
   decrypt_message E s' m = decrypt_message E s m"
  by (auto simp: decrypt_message_def decrypt_key_cong [of s' s] split: option.splits)

lemma conversationId_decrypt_conversation [simp]:
  "conversationId (decrypt_conversation E s c) = conversationId c"
  by (simp add: decrypt_conversation_def spread_conversation_def split: option.splits sum.splits)

lemma messageId_decrypt_message [simp]:
  "messageId (decrypt_message E s m) = messageId m"
  by (simp add: decrypt_message_def spread_message_def split: option.splits sum.splits)













lemma set_openCursor [simp]: "set (openCursor dir xs) = set xs"
  by (cases dir) (simp_all add: openCursor_def)





lemma conversation_content_key_cong:
  "encryptionKey s' = encryptionKey s \<Longrightarrow>
   conversation_content E s' = conversation_content E s"
  by (intro ext) (simp add: conversation_content_def decrypt_conversation_key_cong [of s' s])









subsection \<open>Decrypt failures in get and list\<close>








end
